theory Spec2Isabelle
  imports Complex_Main "HOL-Library.Word"
begin

section \<open>JavaScript values\<close>

text \<open>
  The playground (src/src/App.tsx, src/src/components/Navbar.tsx) is glue around three
  things it does not contain: the sql.js engine, the browser, and React. The engine and the
  two browser functions whose results the code stores (\<open>TextDecoder.decode\<close> and the
  number-to-string conversion of template literals) are parameters of the model; the
  handlers of the application are translated line by line.

  A string is a list of 8-bit characters: a character stands for a UTF-16 code unit
  below 256. A number is a real or one of the three special doubles; rounding of finite
  arithmetic is not modelled (the code only compares, clamps and stores numbers).
\<close>

type_synonym byte = "8 word"

datatype jsnum = Fin real | PInf | NInf | NaN

datatype js_value =
    JString string
  | JNumber jsnum
  | JNull
  | JUint8Array "byte list"
  | JUndefined

text \<open>An exception is an \<open>Error\<close> object with its message, or any other thrown value.\<close>

datatype exn = JsError string | JsThrown js_value

text \<open>\<open>string | number | null\<close>, the cell type that \<open>TableRow\<close> declares.\<close>

definition is_primitive :: "js_value \<Rightarrow> bool" where
  "is_primitive v = (case v of JString _ \<Rightarrow> True | JNumber _ \<Rightarrow> True | JNull \<Rightarrow> True
                     | JUint8Array _ \<Rightarrow> False | JUndefined \<Rightarrow> False)"

text \<open>\<open>row[i]\<close>: reading an array past its end gives \<open>undefined\<close>.\<close>

definition js_index :: "js_value list \<Rightarrow> nat \<Rightarrow> js_value" where
  "js_index row i = (if i < length row then row ! i else JUndefined)"

text \<open>\<open>Boolean(v)\<close>.\<close>

definition Boolean :: "js_value \<Rightarrow> bool" where
  "Boolean v = (case v of JString s \<Rightarrow> s \<noteq> [] | JNumber n \<Rightarrow> n \<noteq> Fin 0 \<and> n \<noteq> NaN
                | JNull \<Rightarrow> False | JUint8Array _ \<Rightarrow> True | JUndefined \<Rightarrow> False)"

text \<open>\<open>Array.prototype.join\<close>.\<close>

fun join :: "string \<Rightarrow> string list \<Rightarrow> string" where
  "join sep [] = []"
| "join sep [x] = x"
| "join sep (x # y # ys) = x @ sep @ join sep (y # ys)"

text \<open>\<open>Object.fromEntries\<close>: a later entry with the same key replaces the earlier one.\<close>

definition Object_fromEntries :: "(string \<times> 'v) list \<Rightarrow> (string \<rightharpoonup> 'v)" where
  "Object_fromEntries es = fold (\<lambda>(k, v) m. m(k \<mapsto> v)) es Map.empty"

text \<open>
  \<open>obj[k] = v\<close> on a plain object, for a value \<open>v\<close> that is an object (here always an
  array): the own property \<open>k\<close> is created or replaced, except that the key
  \<open>__proto__\<close> reaches the setter inherited from \<open>Object.prototype\<close>, which changes the
  prototype of \<open>obj\<close> and creates no own property. (\<open>Object.fromEntries\<close> defines its
  properties directly and has no such exception.)
\<close>

definition set_property :: "(string \<rightharpoonup> 'v) \<Rightarrow> string \<Rightarrow> 'v \<Rightarrow> (string \<rightharpoonup> 'v)" where
  "set_property obj k v = (if k = ''__proto__'' then obj else obj(k \<mapsto> v))"

section \<open>The engine and the browser, as parameters\<close>

text \<open>One result set of sql.js: \<open>{columns: string[], values: SqlValue[][]}\<close>.\<close>

record QueryExecResult =
  qr_columns :: "string list"
  qr_values :: "js_value list list"

text \<open>
  \<open>'db\<close> is the state of one in-memory database. Every call returns the state it leaves
  behind together with its result or the exception it throws (\<open>Inl\<close>): a statement list
  that fails half way has changed the database and thrown. \<open>db_getRowsModified\<close> reads a
  counter and does not throw. \<open>textDecode\<close> is \<open>new TextDecoder().decode\<close>, and
  \<open>numberToString\<close> is the conversion of a number to a string.
\<close>

record 'db platform =
  db_exec :: "'db \<Rightarrow> string \<Rightarrow> (exn + QueryExecResult list) \<times> 'db"
  db_run :: "'db \<Rightarrow> string \<Rightarrow> (exn + unit) \<times> 'db"
  db_getRowsModified :: "'db \<Rightarrow> jsnum"
  db_export :: "'db \<Rightarrow> (exn + byte list) \<times> 'db"
  textDecode :: "byte list \<Rightarrow> string"
  numberToString :: "jsnum \<Rightarrow> string"

text \<open>String conversion of a value, as a template literal or a property key performs it.\<close>

definition toStr :: "'db platform \<Rightarrow> js_value \<Rightarrow> string" where
  "toStr P v = (case v of
      JString s \<Rightarrow> s
    | JNumber n \<Rightarrow> numberToString P n
    | JNull \<Rightarrow> ''null''
    | JUint8Array bs \<Rightarrow> join '','' (map (\<lambda>b. numberToString P (Fin (real (unat b)))) bs)
    | JUndefined \<Rightarrow> ''undefined'')"

text \<open>\<open>err instanceof Error ? err.message : String(err)\<close>.\<close>

definition errorMessage :: "'db platform \<Rightarrow> exn \<Rightarrow> string" where
  "errorMessage P e = (case e of JsError m \<Rightarrow> m | JsThrown v \<Rightarrow> toStr P v)"

section \<open>Computations that change a state and may throw\<close>

type_synonym ('a, 's) eff = "'s \<Rightarrow> (exn + 'a) \<times> 's"

definition eff_ret :: "'a \<Rightarrow> ('a, 's) eff" where
  "eff_ret x = (\<lambda>s. (Inr x, s))"

definition eff_bind :: "('a, 's) eff \<Rightarrow> ('a \<Rightarrow> ('b, 's) eff) \<Rightarrow> ('b, 's) eff" where
  "eff_bind m f = (\<lambda>s. case m s of (Inl e, s') \<Rightarrow> (Inl e, s') | (Inr x, s') \<Rightarrow> f x s')"

definition eff_seq :: "(unit, 's) eff \<Rightarrow> ('b, 's) eff \<Rightarrow> ('b, 's) eff" where
  "eff_seq m n = eff_bind m (\<lambda>_. n)"

definition eff_upd :: "('s \<Rightarrow> 's) \<Rightarrow> (unit, 's) eff" where
  "eff_upd f = (\<lambda>s. (Inr (), f s))"

text \<open>\<open>try { m } catch (e) { h e }\<close>: what \<open>m\<close> did to the state before throwing stays.\<close>

definition try_catch :: "('a, 's) eff \<Rightarrow> (exn \<Rightarrow> ('a, 's) eff) \<Rightarrow> ('a, 's) eff" where
  "try_catch m h = (\<lambda>s. case m s of (Inl e, s') \<Rightarrow> h e s' | (Inr x, s') \<Rightarrow> (Inr x, s'))"

section \<open>The database object\<close>

text \<open>
  The \<open>Database\<close> object that the React state \<open>db\<close> refers to: the engine's state and the
  calls this object has received, in order.
\<close>

datatype engine_call = CallExec string | CallRun string | CallExport

record 'db conn =
  handle :: 'db
  trace :: "engine_call list"

definition conn_exec :: "'db platform \<Rightarrow> string \<Rightarrow> (QueryExecResult list, 'db conn) eff" where
  "conn_exec P q = (\<lambda>c. case db_exec P (handle c) q of
      (r, d') \<Rightarrow> (r, \<lparr>handle = d', trace = trace c @ [CallExec q]\<rparr>))"

definition conn_run :: "'db platform \<Rightarrow> string \<Rightarrow> (unit, 'db conn) eff" where
  "conn_run P q = (\<lambda>c. case db_run P (handle c) q of
      (r, d') \<Rightarrow> (r, \<lparr>handle = d', trace = trace c @ [CallRun q]\<rparr>))"

definition conn_getRowsModified :: "'db platform \<Rightarrow> (jsnum, 'db conn) eff" where
  "conn_getRowsModified P = (\<lambda>c. (Inr (db_getRowsModified P (handle c)), c))"

definition conn_export :: "'db platform \<Rightarrow> (byte list, 'db conn) eff" where
  "conn_export P = (\<lambda>c. case db_export P (handle c) of
      (r, d') \<Rightarrow> (r, \<lparr>handle = d', trace = trace c @ [CallExport]\<rparr>))"

section \<open>The state of the root view\<close>

record js_file =
  file_name :: string
  file_bytes :: "byte list"

text \<open>An object used as a dictionary is the map of its own properties.\<close>

type_synonym TableRow = "string \<rightharpoonup> js_value"

type_synonym TableData = "string \<rightharpoonup> TableRow list"

text \<open>
  The declared types of the schema fields are \<open>string\<close> and \<open>string | null\<close>, reached
  by unchecked \<open>as\<close> casts from engine cells: at run time a field holds whatever the
  cell held.
\<close>

record TableColumn =
  col_name :: js_value
  col_type :: js_value
  notNull :: bool
  defaultValue :: js_value
  primaryKey :: bool

record ForeignKey =
  fk_id :: string
  columnName :: js_value
  referencedTable :: js_value
  referencedColumn :: js_value

record TableSchema =
  ts_name :: js_value
  ts_columns :: "TableColumn list"
  foreignKeys :: "ForeignKey list"

text \<open>
  A drag in progress: the \<open>mousemove\<close> listener that \<open>handleHorizontalResize\<close> or
  \<open>handleVerticalResize\<close> has registered, with the values its closure holds. The vertical
  handler is used with \<open>setTopHeightLeft\<close> and with \<open>setTopHeightRight\<close>.
\<close>

datatype pane = LeftPane | RightPane

datatype drag =
    HorizontalDrag real jsnum \<comment> \<open>\<open>startX\<close>, \<open>startFraction\<close>\<close>
  | VerticalDrag pane real jsnum \<comment> \<open>\<open>setHeight\<close>, \<open>startY\<close>, \<open>startHeight\<close>\<close>

record download =
  dl_name :: string
  dl_bytes :: "byte list"
  dl_type :: string

text \<open>
  The \<open>useState\<close> cells of \<open>App\<close>, and the two effects on the browser that the claims
  speak about: the alerts shown and the downloads started; and the mouse listeners
  registered by the resize handlers. Writes to the console and to DOM styles are left out.
  The cell \<open>file\<close> of the source is \<open>selectedFile\<close> here.
\<close>

record 'db world =
  db :: "'db conn option"
  selectedFile :: "js_file option"
  leftWidth :: jsnum
  topHeightLeft :: jsnum
  topHeightRight :: jsnum
  editorContent :: string
  tables :: TableData
  tableSchemas :: "TableSchema list"
  queryResults :: "TableData option"
  queryError :: "string option"
  queryMessage :: "string option"
  alerts :: "string list"
  downloads :: "download list"
  listeners :: "drag list"

definition minFraction :: jsnum where
  "minFraction = Fin 0.2"

definition maxFraction :: jsnum where
  "maxFraction = Fin 0.8"

definition initial_world :: "'db world" where
  "initial_world = \<lparr>db = None, selectedFile = None, leftWidth = Fin 0.3, topHeightLeft = Fin 0.5,
     topHeightRight = Fin 0.5, editorContent = ''-- Write your SQL here'',
     tables = Map.empty, tableSchemas = [], queryResults = None, queryError = None,
     queryMessage = None, alerts = [], downloads = [], listeners = []\<rparr>"

text \<open>A call on \<open>db\<close>; on \<open>null\<close> it is a TypeError (every handler tests \<open>db\<close> first).\<close>

definition with_db :: "('a, 'db conn) eff \<Rightarrow> ('a, 'db world) eff" where
  "with_db m = (\<lambda>s. case db s of
      None \<Rightarrow> (Inl (JsError ''Cannot read properties of null''), s)
    | Some c \<Rightarrow> (case m c of (r, c') \<Rightarrow> (r, s\<lparr>db := Some c'\<rparr>)))"

section \<open>Catalog introspection\<close>

text \<open>Function \<open>convertSqlValue\<close> (App.tsx, line 242).\<close>

definition convertSqlValue :: "'db platform \<Rightarrow> js_value \<Rightarrow> js_value" where
  "convertSqlValue P v = (case v of JUint8Array bs \<Rightarrow> JString (textDecode P bs) | _ \<Rightarrow> v)"

definition listTablesSql :: string where
  "listTablesSql = ''SELECT name FROM sqlite_master WHERE type='table';''"

definition selectAllSql :: "'db platform \<Rightarrow> js_value \<Rightarrow> string" where
  \<open>selectAllSql P t = ''SELECT * FROM "'' @ toStr P t @ ''";''\<close>

definition tableInfoSql :: "'db platform \<Rightarrow> js_value \<Rightarrow> string" where
  \<open>tableInfoSql P t = ''PRAGMA table_info("'' @ toStr P t @ ''");''\<close>

definition foreignKeyListSql :: "'db platform \<Rightarrow> js_value \<Rightarrow> string" where
  \<open>foreignKeyListSql P t = ''PRAGMA foreign_key_list("'' @ toStr P t @ ''");''\<close>

text \<open>\<open>tableQuery[0]?.values.map((row) => row[0] as string) || []\<close>.\<close>

definition tableNamesOf :: "QueryExecResult list \<Rightarrow> js_value list" where
  "tableNamesOf tableQuery =
     (case tableQuery of [] \<Rightarrow> [] | r # _ \<Rightarrow> map (\<lambda>row. js_index row 0) (qr_values r))"

text \<open>\<open>Object.fromEntries(columns.map((col, i) => [col, conv(row[i])]))\<close>.\<close>

definition rowObject :: "(js_value \<Rightarrow> js_value) \<Rightarrow> string list \<Rightarrow> js_value list \<Rightarrow> TableRow" where
  "rowObject conv cols row =
     Object_fromEntries (map (\<lambda>(col, i). (col, conv (js_index row i))) (zip cols [0..<length cols]))"

text \<open>The body of \<open>tableNames.forEach\<close> in \<open>fetchTables\<close>, and the loop.\<close>

definition fetchTables_each :: "'db platform \<Rightarrow> js_value \<Rightarrow> TableData \<Rightarrow> (TableData, 'db conn) eff" where
  "fetchTables_each P t tableData =
     eff_bind (conn_exec P (selectAllSql P t)) (\<lambda>result.
       eff_ret (set_property tableData (toStr P t)
         (case result of
            [] \<Rightarrow> []
          | r # _ \<Rightarrow> map (rowObject (convertSqlValue P) (qr_columns r)) (qr_values r))))"

fun fetchTables_forEach :: "'db platform \<Rightarrow> js_value list \<Rightarrow> TableData \<Rightarrow> (TableData, 'db conn) eff" where
  "fetchTables_forEach P [] tableData = eff_ret tableData"
| "fetchTables_forEach P (t # ts) tableData =
     eff_bind (fetchTables_each P t tableData) (\<lambda>tableData'. fetchTables_forEach P ts tableData')"

text \<open>What \<open>fetchTables\<close> does inside its \<open>try\<close> before it calls \<open>setTables\<close>.\<close>

definition readTables :: "'db platform \<Rightarrow> (TableData, 'db conn) eff" where
  "readTables P =
     eff_bind (conn_exec P listTablesSql) (\<lambda>tableQuery.
       fetchTables_forEach P (tableNamesOf tableQuery) Map.empty)"

text \<open>Function \<open>fetchTables\<close> (App.tsx, line 161).\<close>

definition fetchTables :: "'db platform \<Rightarrow> (unit, 'db world) eff" where
  "fetchTables P = (\<lambda>s.
     if db s = None then (Inr (), s)
     else try_catch
            (eff_bind (with_db (readTables P)) (\<lambda>tableData.
               eff_upd (\<lambda>s. s\<lparr>tables := tableData\<rparr>)))
            (\<lambda>err. eff_ret ()) s)"

text \<open>The two \<open>map\<close> callbacks of \<open>fetchTableSchemas\<close>.\<close>

definition columnOf :: "js_value list \<Rightarrow> TableColumn" where
  "columnOf col = \<lparr>col_name = js_index col 1, col_type = js_index col 2,
     notNull = Boolean (js_index col 3), defaultValue = js_index col 4,
     primaryKey = Boolean (js_index col 5)\<rparr>"

definition foreignKeyOf :: "'db platform \<Rightarrow> js_value \<Rightarrow> js_value list \<times> nat \<Rightarrow> ForeignKey" where
  "foreignKeyOf P tableName = (\<lambda>(fk, index).
     \<lparr>fk_id = toStr P tableName @ ''_fk_'' @ numberToString P (Fin (real index)),
      columnName = js_index fk 3, referencedTable = js_index fk 2,
      referencedColumn = js_index fk 4\<rparr>)"

definition foreignKeysOf :: "'db platform \<Rightarrow> js_value \<Rightarrow> QueryExecResult list \<Rightarrow> ForeignKey list" where
  "foreignKeysOf P tableName foreignKeyInfo =
     (case foreignKeyInfo of
        [] \<Rightarrow> []
      | r # _ \<Rightarrow> map (foreignKeyOf P tableName) (zip (qr_values r) [0..<length (qr_values r)]))"

text \<open>The inner \<open>try\<close> block of the loop of \<open>fetchTableSchemas\<close>, its \<open>catch\<close>, and the loop.\<close>

definition fetchTableSchemas_try :: "'db platform \<Rightarrow> js_value \<Rightarrow> TableSchema list \<Rightarrow> (TableSchema list, 'db conn) eff" where
  "fetchTableSchemas_try P tableName schemas =
     eff_bind (conn_exec P (tableInfoSql P tableName)) (\<lambda>columnInfo.
       case columnInfo of
         [] \<Rightarrow> eff_ret schemas
       | ci # _ \<Rightarrow>
           eff_bind (conn_exec P (foreignKeyListSql P tableName)) (\<lambda>foreignKeyInfo.
             eff_ret (schemas @ [\<lparr>ts_name = tableName,
                ts_columns = map columnOf (qr_values ci),
                foreignKeys = foreignKeysOf P tableName foreignKeyInfo\<rparr>])))"

definition fetchTableSchemas_each :: "'db platform \<Rightarrow> js_value \<Rightarrow> TableSchema list \<Rightarrow> (TableSchema list, 'db conn) eff" where
  "fetchTableSchemas_each P tableName schemas =
     try_catch (fetchTableSchemas_try P tableName schemas) (\<lambda>columnErr. eff_ret schemas)"

fun fetchTableSchemas_forEach :: "'db platform \<Rightarrow> js_value list \<Rightarrow> TableSchema list \<Rightarrow> (TableSchema list, 'db conn) eff" where
  "fetchTableSchemas_forEach P [] schemas = eff_ret schemas"
| "fetchTableSchemas_forEach P (t # ts) schemas =
     eff_bind (fetchTableSchemas_each P t schemas) (\<lambda>schemas'. fetchTableSchemas_forEach P ts schemas')"

definition readSchemas :: "'db platform \<Rightarrow> (TableSchema list, 'db conn) eff" where
  "readSchemas P =
     eff_bind (conn_exec P listTablesSql) (\<lambda>tableQuery.
       fetchTableSchemas_forEach P (tableNamesOf tableQuery) [])"

text \<open>Function \<open>fetchTableSchemas\<close> (App.tsx, line 188).\<close>

definition fetchTableSchemas :: "'db platform \<Rightarrow> (unit, 'db world) eff" where
  "fetchTableSchemas P = (\<lambda>s.
     if db s = None then (Inr (), s)
     else try_catch
            (eff_bind (with_db (readSchemas P)) (\<lambda>schemas.
               eff_upd (\<lambda>s. s\<lparr>tableSchemas := schemas\<rparr>)))
            (\<lambda>err. eff_ret ()) s)"

section \<open>Regular expressions\<close>

text \<open>
  The fragment of JavaScript regular expressions that \<open>isDMLQuery\<close> uses: letters under
  the flag \<open>i\<close>, the class \<open>\s\<close>, concatenation, \<open>*\<close> and \<open>+\<close>. Under the
  flag \<open>i\<close> both sides are upper-cased, and a character outside ASCII never matches an
  ASCII letter. Among the code units below 256, \<open>\s\<close> is tab, line feed, vertical tab,
  form feed, carriage return, space and no-break space.
\<close>

definition toUpperCase :: "char \<Rightarrow> char" where
  "toUpperCase c =
     (case map_of (zip ''abcdefghijklmnopqrstuvwxyz'' ''ABCDEFGHIJKLMNOPQRSTUVWXYZ'') c of
        Some u \<Rightarrow> u | None \<Rightarrow> c)"

definition is_space :: "char \<Rightarrow> bool" where
  "is_space c = (c \<in> set [CHR 0x09, CHR 0x0A, CHR 0x0B, CHR 0x0C, CHR 0x0D, CHR 0x20, CHR 0xA0])"

datatype atom = Letter char | Space

fun atom_matches :: "atom \<Rightarrow> char \<Rightarrow> bool" where
  "atom_matches (Letter l) c = (toUpperCase c = toUpperCase l)"
| "atom_matches Space c = is_space c"

datatype regex = Zero | One | Atom atom | Alt regex regex | Seq regex regex | Star regex

definition Plus :: "regex \<Rightarrow> regex" where
  "Plus r = Seq r (Star r)"

fun word :: "string \<Rightarrow> regex" where
  "word [] = One"
| "word (c # cs) = Seq (Atom (Letter c)) (word cs)"

fun nullable :: "regex \<Rightarrow> bool" where
  "nullable Zero = False"
| "nullable One = True"
| "nullable (Atom a) = False"
| "nullable (Alt r s) = (nullable r \<or> nullable s)"
| "nullable (Seq r s) = (nullable r \<and> nullable s)"
| "nullable (Star r) = True"

fun deriv :: "char \<Rightarrow> regex \<Rightarrow> regex" where
  "deriv c Zero = Zero"
| "deriv c One = Zero"
| "deriv c (Atom a) = (if atom_matches a c then One else Zero)"
| "deriv c (Alt r s) = Alt (deriv c r) (deriv c s)"
| "deriv c (Seq r s) =
     (if nullable r then Alt (Seq (deriv c r) s) (deriv c s) else Seq (deriv c r) s)"
| "deriv c (Star r) = Seq (deriv c r) (Star r)"

text \<open>
  \<open>/^r/.test(s)\<close> for a pattern without the flags \<open>g\<close>, \<open>y\<close> and \<open>m\<close>: some prefix of
  \<open>s\<close> matches \<open>r\<close>.
\<close>

fun regex_test :: "regex \<Rightarrow> string \<Rightarrow> bool" where
  "regex_test r [] = nullable r"
| "regex_test r (c # cs) = (nullable r \<or> regex_test (deriv c r) cs)"

section \<open>Running a statement\<close>

text \<open>Function \<open>isDMLQuery\<close> (App.tsx, line 250).\<close>

definition dmlPatterns :: "regex list" where
  "dmlPatterns =
    [Seq (Star (Atom Space)) (Seq (word ''INSERT'') (Seq (Plus (Atom Space)) (word ''INTO''))),
     Seq (Star (Atom Space)) (Seq (word ''UPDATE'') (Plus (Atom Space))),
     Seq (Star (Atom Space)) (Seq (word ''DELETE'') (Seq (Plus (Atom Space)) (word ''FROM''))),
     Seq (Star (Atom Space)) (Seq (word ''CREATE'') (Seq (Plus (Atom Space)) (word ''TABLE''))),
     Seq (Star (Atom Space)) (Seq (word ''DROP'') (Seq (Plus (Atom Space)) (word ''TABLE''))),
     Seq (Star (Atom Space)) (Seq (word ''ALTER'') (Seq (Plus (Atom Space)) (word ''TABLE'')))]"

definition isDMLQuery :: "string \<Rightarrow> bool" where
  "isDMLQuery query = list_ex (\<lambda>pattern. regex_test pattern query) dmlPatterns"

text \<open>The callback of \<open>result.forEach\<close> in \<open>executeQuery\<close>, and the loop.\<close>

definition resultRows :: "'db platform \<Rightarrow> QueryExecResult \<Rightarrow> TableRow list" where
  "resultRows P table =
     map (rowObject (\<lambda>value. case value of JUint8Array bs \<Rightarrow> JString (textDecode P bs) | _ \<Rightarrow> value)
            (qr_columns table))
         (qr_values table)"

definition resultTables :: "'db platform \<Rightarrow> QueryExecResult list \<Rightarrow> TableData" where
  "resultTables P result =
     fold (\<lambda>table tableData. set_property tableData (join '', '' (qr_columns table)) (resultRows P table))
          result Map.empty"

text \<open>The two branches of \<open>if (isDML)\<close>.\<close>

definition executeQuery_dml :: "'db platform \<Rightarrow> string \<Rightarrow> (unit, 'db world) eff" where
  "executeQuery_dml P sql =
     try_catch
       (eff_bind (with_db (conn_run P sql)) (\<lambda>_.
        eff_bind (with_db (conn_getRowsModified P)) (\<lambda>rowsChanged.
        eff_seq (eff_upd (\<lambda>s. s\<lparr>queryResults := Some Map.empty\<rparr>))
                (eff_upd (\<lambda>s. s\<lparr>queryMessage :=
                   Some (''Query executed successfully. Rows affected: '' @ numberToString P rowsChanged)\<rparr>)))))
       (\<lambda>dmlError. eff_upd (\<lambda>s. s\<lparr>queryError := Some (''SQL Error: '' @ errorMessage P dmlError)\<rparr>))"

definition executeQuery_select :: "'db platform \<Rightarrow> string \<Rightarrow> (unit, 'db world) eff" where
  "executeQuery_select P sql =
     eff_bind (with_db (conn_exec P sql)) (\<lambda>result.
       if length result > 0
       then eff_upd (\<lambda>s. s\<lparr>queryResults := Some (resultTables P result)\<rparr>)
       else eff_seq (eff_upd (\<lambda>s. s\<lparr>queryResults := Some Map.empty\<rparr>))
                    (eff_upd (\<lambda>s. s\<lparr>queryMessage := Some ''Query executed successfully. No rows returned.''\<rparr>)))"

text \<open>
  Function \<open>executeQuery\<close> (App.tsx, line 264). \<open>leftWidth\<close> and \<open>editorContent\<close> are the
  values of the render that created the handler.
\<close>

definition executeQuery :: "'db platform \<Rightarrow> (unit, 'db world) eff" where
  "executeQuery P = (\<lambda>s.
     if db s = None then (Inr (), s)
     else
       eff_seq (eff_upd (\<lambda>s. s\<lparr>queryError := None\<rparr>))
      (eff_seq (eff_upd (\<lambda>s. s\<lparr>queryMessage := None\<rparr>))
      (try_catch
        (let currentLeftWidth = leftWidth s;
             isDML = isDMLQuery (editorContent s)
         in eff_seq (if isDML then executeQuery_dml P (editorContent s)
                     else executeQuery_select P (editorContent s))
           (eff_seq (fetchTables P)
           (eff_seq (fetchTableSchemas P)
                    (eff_upd (\<lambda>s. s\<lparr>leftWidth := currentLeftWidth\<rparr>)))))
        (\<lambda>err.
            eff_seq (eff_upd (\<lambda>s. s\<lparr>queryError := Some (''SQL Error: '' @ errorMessage P err)\<rparr>))
           (eff_seq (eff_upd (\<lambda>s. s\<lparr>queryResults := Some Map.empty\<rparr>))
           (eff_seq (fetchTables P) (fetchTableSchemas P)))))) s)"

text \<open>
  \<open>fetchTables(); fetchTableSchemas();\<close>, as \<open>executeQuery\<close> calls them twice and the
  effect on \<open>db\<close> once.
\<close>

definition refetch :: "'db platform \<Rightarrow> 'db world \<Rightarrow> 'db world" where
  "refetch P s = snd (eff_seq (fetchTables P) (fetchTableSchemas P) s)"

section \<open>Download, clear, load\<close>

definition alert :: "string \<Rightarrow> (unit, 'db world) eff" where
  "alert msg = eff_upd (\<lambda>s. s\<lparr>alerts := alerts s @ [msg]\<rparr>)"

text \<open>
  Function \<open>downloadDatabase\<close> (App.tsx, line 52). Creating the blob, its URL and the
  link, and clicking the link, start one download.
\<close>

definition downloadDatabase :: "'db platform \<Rightarrow> (unit, 'db world) eff" where
  \<open>downloadDatabase P = (\<lambda>s.
     if db s = None
     then alert ''No database to download. Please create tables or load a database first.'' s
     else try_catch
       (eff_bind (with_db (conn_export P)) (\<lambda>data.
          let fileName = (case selectedFile s of Some f \<Rightarrow> file_name f
                          | None \<Rightarrow> ''sql-playground-export.sqlite'')
          in eff_seq (eff_upd (\<lambda>s. s\<lparr>downloads := downloads s @
                        [\<lparr>dl_name = fileName, dl_bytes = data, dl_type = ''application/x-sqlite3''\<rparr>]\<rparr>))
                     (alert (''Database "'' @ fileName @ ''" downloaded successfully!''))))
       (\<lambda>err. alert (''Error downloading database: '' @ errorMessage P err)) s)\<close>

text \<open>
  Function \<open>clearDatabase\<close> (App.tsx, line 93). \<open>created\<close> is what
  \<open>await initSqlJs(...)\<close> followed by \<open>new SQL.Database()\<close> gives: a fresh database or an
  exception.
\<close>

definition clearDatabase :: "'db platform \<Rightarrow> exn + 'db \<Rightarrow> (unit, 'db world) eff" where
  "clearDatabase P created =
     try_catch
       (eff_bind (\<lambda>s. (created, s)) (\<lambda>newDb.
          eff_seq (eff_upd (\<lambda>s. s\<lparr>db := Some \<lparr>handle = newDb, trace = []\<rparr>\<rparr>))
         (eff_seq (eff_upd (\<lambda>s. s\<lparr>selectedFile := None\<rparr>))
         (eff_seq (eff_upd (\<lambda>s. s\<lparr>tables := Map.empty\<rparr>))
         (eff_seq (eff_upd (\<lambda>s. s\<lparr>tableSchemas := []\<rparr>))
         (eff_seq (eff_upd (\<lambda>s. s\<lparr>queryResults := None\<rparr>))
         (eff_seq (eff_upd (\<lambda>s. s\<lparr>queryError := None\<rparr>))
         (eff_seq (eff_upd (\<lambda>s. s\<lparr>queryMessage := None\<rparr>))
         (eff_seq (eff_upd (\<lambda>s. s\<lparr>editorContent := ''-- Write your SQL here''\<rparr>))
                  (eff_upd (\<lambda>s. s\<lparr>queryMessage :=
                     Some ''Database cleared successfully. Start with a fresh database.''\<rparr>)))))))))))
       (\<lambda>err. alert (''Error clearing database: '' @ errorMessage P err))"

text \<open>The effect on \<open>db\<close> (App.tsx, line 154), run after a render in which \<open>db\<close> changed.\<close>

definition db_effect :: "'db platform \<Rightarrow> (unit, 'db world) eff" where
  "db_effect P = (\<lambda>s.
     if db s \<noteq> None then eff_seq (fetchTables P) (fetchTableSchemas P) s else (Inr (), s))"

section \<open>Resizing the panes\<close>

text \<open>
  Arithmetic on doubles, for the operands the resize handlers have: coordinates and window
  sizes are finite, a quotient by zero is an infinity or NaN, and \<open>Math.min\<close> and
  \<open>Math.max\<close> give NaN as soon as one argument is NaN.
\<close>

definition js_div :: "real \<Rightarrow> real \<Rightarrow> jsnum" where
  "js_div a b = (if b \<noteq> 0 then Fin (a / b)
                 else if a = 0 then NaN
                 else if (0 < a) = (0 \<le> b) then PInf else NInf)"

fun js_add :: "jsnum \<Rightarrow> jsnum \<Rightarrow> jsnum" where
  "js_add NaN y = NaN"
| "js_add x NaN = NaN"
| "js_add (Fin a) (Fin b) = Fin (a + b)"
| "js_add PInf NInf = NaN"
| "js_add NInf PInf = NaN"
| "js_add PInf y = PInf"
| "js_add x PInf = PInf"
| "js_add NInf y = NInf"
| "js_add x NInf = NInf"

fun Math_min :: "jsnum \<Rightarrow> jsnum \<Rightarrow> jsnum" where
  "Math_min NaN y = NaN"
| "Math_min x NaN = NaN"
| "Math_min NInf y = NInf"
| "Math_min x NInf = NInf"
| "Math_min PInf y = y"
| "Math_min x PInf = x"
| "Math_min (Fin a) (Fin b) = Fin (min a b)"

fun Math_max :: "jsnum \<Rightarrow> jsnum \<Rightarrow> jsnum" where
  "Math_max NaN y = NaN"
| "Math_max x NaN = NaN"
| "Math_max PInf y = PInf"
| "Math_max x PInf = PInf"
| "Math_max NInf y = y"
| "Math_max x NInf = x"
| "Math_max (Fin a) (Fin b) = Fin (max a b)"

text \<open>A \<open>mousemove\<close> event, with the size of the window when it arrives.\<close>

record mouse_move =
  clientX :: real
  clientY :: real
  innerWidth :: real
  innerHeight :: real

text \<open>\<open>Math.max(minFraction, Math.min(maxFraction, start + delta))\<close>.\<close>

definition newFraction :: "jsnum \<Rightarrow> jsnum \<Rightarrow> jsnum" where
  "newFraction start delta = Math_max minFraction (Math_min maxFraction (js_add start delta))"

definition setHeightOf :: "pane \<Rightarrow> jsnum \<Rightarrow> 'db world \<Rightarrow> 'db world" where
  "setHeightOf p h s = (case p of LeftPane \<Rightarrow> s\<lparr>topHeightLeft := h\<rparr>
                        | RightPane \<Rightarrow> s\<lparr>topHeightRight := h\<rparr>)"

text \<open>
  The two \<open>onMouseMove\<close> closures (App.tsx, lines 349 and 382), and the \<open>mousedown\<close>
  handlers that create and register them.
\<close>

fun onMouseMove :: "drag \<Rightarrow> mouse_move \<Rightarrow> 'db world \<Rightarrow> 'db world" where
  "onMouseMove (HorizontalDrag x0 start) ev s =
     s\<lparr>leftWidth := newFraction start (js_div (clientX ev - x0) (innerWidth ev))\<rparr>"
| "onMouseMove (VerticalDrag p y0 start) ev s =
     setHeightOf p (newFraction start (js_div (clientY ev - y0) (innerHeight ev))) s"

definition handleHorizontalResize :: "real \<Rightarrow> 'db world \<Rightarrow> 'db world" where
  "handleHorizontalResize x0 s = s\<lparr>listeners := listeners s @ [HorizontalDrag x0 (leftWidth s)]\<rparr>"

definition handleVerticalResize :: "real \<Rightarrow> pane \<Rightarrow> jsnum \<Rightarrow> 'db world \<Rightarrow> 'db world" where
  "handleVerticalResize y0 p startHeight s =
     s\<lparr>listeners := listeners s @ [VerticalDrag p y0 startHeight]\<rparr>"

section \<open>The events of the root view\<close>

datatype 'db app_event =
    RunSql
  | EditorChange "string option"
  | FileSelect "js_file option"
  | DbLoaded 'db
  | DownloadDb
  | ClearDb "exn + 'db"
  | MouseDownHorizontal real
  | MouseDownLeft real
  | MouseDownRight real
  | MouseMove mouse_move
  | MouseUp

text \<open>
  One event, handled by the closures of the latest render. A \<open>mousemove\<close> reaches every
  registered listener; \<open>mouseup\<close> makes each of them remove itself.
\<close>

fun app_step :: "'db platform \<Rightarrow> 'db app_event \<Rightarrow> 'db world \<Rightarrow> 'db world" where
  "app_step P RunSql s = snd (executeQuery P s)"
| "app_step P (EditorChange newValue) s =
     s\<lparr>editorContent := (case newValue of None \<Rightarrow> [] | Some v \<Rightarrow> v)\<rparr>"
| "app_step P (FileSelect f) s = s\<lparr>selectedFile := f\<rparr>"
| "app_step P (DbLoaded d) s = snd (db_effect P (s\<lparr>db := Some \<lparr>handle = d, trace = []\<rparr>\<rparr>))"
| "app_step P DownloadDb s = snd (downloadDatabase P s)"
| "app_step P (ClearDb created) s = snd (db_effect P (snd (clearDatabase P created s)))"
| "app_step P (MouseDownHorizontal x0) s = handleHorizontalResize x0 s"
| "app_step P (MouseDownLeft y0) s = handleVerticalResize y0 LeftPane (topHeightLeft s) s"
| "app_step P (MouseDownRight y0) s = handleVerticalResize y0 RightPane (topHeightRight s) s"
| "app_step P (MouseMove ev) s = fold (\<lambda>l. onMouseMove l ev) (listeners s) s"
| "app_step P MouseUp s = s\<lparr>listeners := []\<rparr>"

definition app_run :: "'db platform \<Rightarrow> 'db app_event list \<Rightarrow> 'db world \<Rightarrow> 'db world" where
  "app_run P evs s = fold (app_step P) evs s"

section \<open>What the root view renders\<close>

text \<open>
  The children of \<open>App\<close> that receive state (App.tsx, line 413), with the props they get.
  The results pane shows the error if \<open>queryError\<close> is truthy, else the message if
  \<open>queryMessage\<close> is truthy, else the component \<open>QueryOutputTable\<close>.
\<close>

datatype results_view = ErrorBox string | SuccessBox string | QueryOutputTable "TableData option"

record app_view =
  AvailableTables_tables :: TableData
  SchemaViewer_tables :: "TableSchema list"
  Editor_value :: string
  results_pane :: results_view

definition truthy :: "string option \<Rightarrow> bool" where
  "truthy x = (case x of None \<Rightarrow> False | Some t \<Rightarrow> t \<noteq> [])"

definition render :: "'db world \<Rightarrow> app_view" where
  "render s = \<lparr>AvailableTables_tables = tables s,
     SchemaViewer_tables = tableSchemas s,
     Editor_value = editorContent s,
     results_pane =
       (if truthy (queryError s) then ErrorBox (case queryError s of Some t \<Rightarrow> t | None \<Rightarrow> [])
        else if truthy (queryMessage s)
        then SuccessBox (case queryMessage s of Some t \<Rightarrow> t | None \<Rightarrow> [])
        else QueryOutputTable (queryResults s))\<rparr>"

section \<open>The navigation bar\<close>

text \<open>
  Component \<open>Navbar\<close> (Navbar.tsx): its state, what the user can do to it, and the calls
  it makes on its three props. \<open>ClearClick b\<close> is a click on the clear button with
  \<open>b\<close> the answer to \<open>window.confirm\<close>; \<open>FileInputChange fs\<close> is a change of the file
  input whose \<open>files\<close> is \<open>fs\<close>.
\<close>

record navbar =
  fileName :: string

datatype navbar_event = FileInputChange "js_file list option" | ClearClick bool | DownloadClick

datatype navbar_call = OnFileSelect js_file | OnDownloadDb | OnClearDb

definition initial_navbar :: navbar where
  "initial_navbar = \<lparr>fileName = ''Select a database file''\<rparr>"

definition handleFileUpload :: "js_file list option \<Rightarrow> navbar \<Rightarrow> navbar \<times> navbar_call list" where
  "handleFileUpload files n =
     (case files of
        Some (f # _) \<Rightarrow> (n\<lparr>fileName := file_name f\<rparr>, [OnFileSelect f])
      | _ \<Rightarrow> (n, []))"

definition handleClearDb :: "bool \<Rightarrow> navbar \<Rightarrow> navbar \<times> navbar_call list" where
  "handleClearDb confirmed n =
     (if confirmed then (n\<lparr>fileName := ''New Database''\<rparr>, [OnClearDb]) else (n, []))"

fun navbar_step :: "navbar_event \<Rightarrow> navbar \<Rightarrow> navbar \<times> navbar_call list" where
  "navbar_step (FileInputChange files) n = handleFileUpload files n"
| "navbar_step (ClearClick confirmed) n = handleClearDb confirmed n"
| "navbar_step DownloadClick n = (n, [OnDownloadDb])"

section \<open>The statement classes, as the specification words them\<close>




section \<open>Scripted engines\<close>

text \<open>
  Instances of the parameters, to run the handlers on. \<open>demo_platform\<close> answers as sql.js
  does for a database made by
  \<open>CREATE TABLE t (id INTEGER PRIMARY KEY NOT NULL, data BLOB); INSERT INTO t VALUES (1, x'6869');\<close>
  to the statements listed, and rejects every other text. Its state counts the rows changed
  by the last \<open>run\<close>.
\<close>

definition demo_exec :: "nat \<Rightarrow> string \<Rightarrow> (exn + QueryExecResult list) \<times> nat" where
  \<open>demo_exec d q =
    (if q = listTablesSql
     then (Inr [\<lparr>qr_columns = [''name''], qr_values = [[JString ''t'']]\<rparr>], d)
     else if q = ''SELECT * FROM "t";''
     then (Inr [\<lparr>qr_columns = [''id'', ''data''],
                 qr_values = [[JNumber (Fin 1), JUint8Array [104, 105]]]\<rparr>], d)
     else if q = ''PRAGMA table_info("t");''
     then (Inr [\<lparr>qr_columns = [''cid'', ''name'', ''type'', ''notnull'', ''dflt_value'', ''pk''],
                 qr_values = [[JNumber (Fin 0), JString ''id'', JString ''INTEGER'', JNumber (Fin 1),
                               JNull, JNumber (Fin 1)],
                              [JNumber (Fin 1), JString ''data'', JString ''BLOB'', JNumber (Fin 0),
                               JNull, JNumber (Fin 0)]]\<rparr>], d)
     else if q = ''PRAGMA foreign_key_list("t");''
     then (Inr [], d)
     else if q = ''SELECT 1 AS a; SELECT 2 AS a;''
     then (Inr [\<lparr>qr_columns = [''a''], qr_values = [[JNumber (Fin 1)]]\<rparr>,
                \<lparr>qr_columns = [''a''], qr_values = [[JNumber (Fin 2)]]\<rparr>], d)
     else if q = ''SELECT data FROM t''
     then (Inr [\<lparr>qr_columns = [''data''], qr_values = [[JUint8Array [104, 105]]]\<rparr>], d)
     else (Inl (JsError ''near "SELEC": syntax error''), d))\<close>

definition demo_run :: "nat \<Rightarrow> string \<Rightarrow> (exn + unit) \<times> nat" where
  "demo_run d q =
    (if q = ''UPDATE t SET id = 1'' then (Inr (), 1)
     else (Inl (JsError ''no such table: u''), d))"

definition demo_platform :: "nat platform" where
  "demo_platform = \<lparr>db_exec = demo_exec, db_run = demo_run,
     db_getRowsModified = (\<lambda>d. Fin (real d)),
     db_export = (\<lambda>d. (Inr [83, 81, 76], d)),
     textDecode = (\<lambda>bs. if bs = [104, 105] then ''hi'' else ''?''),
     numberToString = (\<lambda>n. if n = Fin 0 then ''0'' else if n = Fin 1 then ''1'' else ''n'')\<rparr>"

definition demo_conn :: "nat conn" where
  "demo_conn = \<lparr>handle = 0, trace = []\<rparr>"

definition demo_world :: "string \<Rightarrow> nat world" where
  "demo_world sql = initial_world\<lparr>db := Some demo_conn, editorContent := sql\<rparr>"

text \<open>
  \<open>quoted_platform\<close> answers as sql.js does after \<open>CREATE TABLE "a""b" (x);\<close>: the catalog
  lists the name \<open>a"b\<close>, and the statements that the playground builds from that name do
  not parse.
\<close>

definition quoted_exec :: "nat \<Rightarrow> string \<Rightarrow> (exn + QueryExecResult list) \<times> nat" where
  \<open>quoted_exec d q =
    (if q = listTablesSql
     then (Inr [\<lparr>qr_columns = [''name''], qr_values = [[JString ''a"b'']]\<rparr>], d)
     else if q = ''SELECT * FROM "a"b";''
     then (Inl (JsError ''unrecognized token: "";"''), d)
     else if q = ''PRAGMA table_info("a"b");''
     then (Inl (JsError ''near "b": syntax error''), d)
     else if q = ''SELECT 1''
     then (Inr [\<lparr>qr_columns = [''1''], qr_values = [[JNumber (Fin 1)]]\<rparr>], d)
     else (Inl (JsError ''incomplete input''), d))\<close>

definition quoted_platform :: "nat platform" where
  "quoted_platform = demo_platform\<lparr>db_exec := quoted_exec\<rparr>"

text \<open>The root view with that database, about to run \<open>SELECT 1\<close>, showing \<open>previous\<close>.\<close>

definition quoted_world :: "TableData \<Rightarrow> nat world" where
  "quoted_world previous =
     initial_world\<lparr>db := Some demo_conn, editorContent := ''SELECT 1'', tables := previous\<rparr>"

text \<open>The property name under which \<open>executeQuery\<close> stores a result set.\<close>

definition resultKey :: "QueryExecResult \<Rightarrow> string" where
  "resultKey table = join '', '' (qr_columns table)"

section \<open>Predicates of the claims\<close>

text \<open>
  The declared result type of \<open>db.exec\<close>: every cell is a \<open>SqlValue\<close>
  (\<open>number | string | Uint8Array | null\<close>), and a row has a cell for every column.
\<close>

definition wf_result :: "QueryExecResult \<Rightarrow> bool" where
  "wf_result r = (\<forall>row \<in> set (qr_values r).
                    length (qr_columns r) \<le> length row \<and> (\<forall>v \<in> set row. v \<noteq> JUndefined))"

definition engine_typed :: "'db platform \<Rightarrow> bool" where
  "engine_typed P = (\<forall>d q rs d'. db_exec P d q = (Inr rs, d') \<longrightarrow> (\<forall>r \<in> set rs. wf_result r))"

text \<open>Every cell of every row of every table is a string, a number or \<open>null\<close>.\<close>

definition primitive_rows :: "TableData \<Rightarrow> bool" where
  "primitive_rows td = (\<forall>k rows. td k = Some rows \<longrightarrow>
                          (\<forall>row \<in> set rows. \<forall>v \<in> ran row. is_primitive v))"

definition primitive_results :: "TableData option \<Rightarrow> bool" where
  "primitive_results r = (case r of None \<Rightarrow> True | Some td \<Rightarrow> primitive_rows td)"



text \<open>The database object after \<open>executeQuery\<close> has given it the statement \<open>sql\<close>.\<close>

definition after_statement :: "'db platform \<Rightarrow> string \<Rightarrow> 'db conn \<Rightarrow> 'db conn" where
  "after_statement P sql c =
     (if isDMLQuery sql then snd (conn_run P sql c) else snd (conn_exec P sql c))"







section \<open>The meaning of a pattern\<close>










section \<open>The handlers never throw\<close>

lemma fetchTables_eq:
  "db s = Some c \<Longrightarrow> fetchTables P s =
     (Inr (), case readTables P c of
                (Inl e, c') \<Rightarrow> s\<lparr>db := Some c'\<rparr>
              | (Inr td, c') \<Rightarrow> s\<lparr>db := Some c', tables := td\<rparr>)"
  unfolding fetchTables_def try_catch_def eff_bind_def with_db_def eff_upd_def eff_ret_def
  by (cases "readTables P c"; cases "fst (readTables P c)") simp_all

lemma fetchTableSchemas_eq:
  "db s = Some c \<Longrightarrow> fetchTableSchemas P s =
     (Inr (), case readSchemas P c of
                (Inl e, c') \<Rightarrow> s\<lparr>db := Some c'\<rparr>
              | (Inr sch, c') \<Rightarrow> s\<lparr>db := Some c', tableSchemas := sch\<rparr>)"
  unfolding fetchTableSchemas_def try_catch_def eff_bind_def with_db_def eff_upd_def eff_ret_def
  by (cases "readSchemas P c"; cases "fst (readSchemas P c)") simp_all

lemma fetchTables_None: "db s = None \<Longrightarrow> fetchTables P s = (Inr (), s)"
  by (simp add: fetchTables_def)

lemma fetchTableSchemas_None: "db s = None \<Longrightarrow> fetchTableSchemas P s = (Inr (), s)"
  by (simp add: fetchTableSchemas_def)

lemma fetchTables_no_throw: "fst (fetchTables P s) = Inr ()"
  by (cases "db s") (simp_all add: fetchTables_eq fetchTables_None)

lemma fetchTableSchemas_no_throw: "fst (fetchTableSchemas P s) = Inr ()"
  by (cases "db s") (simp_all add: fetchTableSchemas_eq fetchTableSchemas_None)

lemma eff_seq_no_throw: "fst (m s) = Inr () \<Longrightarrow> eff_seq m n s = n (snd (m s))"
  by (cases "m s") (simp add: eff_seq_def eff_bind_def)

lemma eff_seq_upd: "eff_seq (eff_upd f) n s = n (f s)"
  by (simp add: eff_seq_def eff_bind_def eff_upd_def)

lemma refetch_eq: "refetch P s = snd (fetchTableSchemas P (snd (fetchTables P s)))"
  by (simp add: refetch_def eff_seq_no_throw fetchTables_no_throw)

lemma seq_fetch: "eff_seq (fetchTables P) (fetchTableSchemas P) s = (Inr (), refetch P s)"
  by (simp add: eff_seq_no_throw fetchTables_no_throw refetch_eq prod_eq_iff fetchTableSchemas_no_throw)

lemma seq_fetch3: "eff_seq (fetchTables P) (eff_seq (fetchTableSchemas P) (eff_upd f)) s = (Inr (), f (refetch P s))"
  by (simp add: eff_seq_no_throw fetchTables_no_throw refetch_eq fetchTableSchemas_no_throw eff_upd_def)


lemma with_db_Some: "db s = Some c \<Longrightarrow> with_db m s = (fst (m c), s\<lparr>db := Some (snd (m c))\<rparr>)"
  by (cases "m c") (simp add: with_db_def)


lemma executeQuery_dml_throw:
  assumes "db s = Some c" "db_run P (handle c) sql = (Inl e, d')"
  shows "executeQuery_dml P sql s =
    (Inr (), s\<lparr>db := Some \<lparr>handle = d', trace = trace c @ [CallRun sql]\<rparr>,
               queryError := Some (''SQL Error: '' @ errorMessage P e)\<rparr>)"
  using assms
  by (simp add: executeQuery_dml_def try_catch_def eff_bind_def with_db_Some conn_run_def eff_upd_def)

lemma executeQuery_dml_ok:
  assumes "db s = Some c" "db_run P (handle c) sql = (Inr u, d')"
  shows "executeQuery_dml P sql s =
    (Inr (), s\<lparr>db := Some \<lparr>handle = d', trace = trace c @ [CallRun sql]\<rparr>,
               queryResults := Some Map.empty,
               queryMessage := Some (''Query executed successfully. Rows affected: '' @
                                     numberToString P (db_getRowsModified P d'))\<rparr>)"
  using assms
  by (simp add: executeQuery_dml_def try_catch_def eff_bind_def with_db_Some conn_run_def eff_upd_def
      eff_seq_def conn_getRowsModified_def)

lemma executeQuery_select_throw:
  assumes "db s = Some c" "db_exec P (handle c) sql = (Inl e, d')"
  shows "executeQuery_select P sql s =
    (Inl e, s\<lparr>db := Some \<lparr>handle = d', trace = trace c @ [CallExec sql]\<rparr>\<rparr>)"
  using assms
  by (simp add: executeQuery_select_def eff_bind_def with_db_Some conn_exec_def)

lemma executeQuery_select_ok:
  assumes "db s = Some c" "db_exec P (handle c) sql = (Inr result, d')"
  shows "executeQuery_select P sql s =
    (Inr (), if result = []
       then s\<lparr>db := Some \<lparr>handle = d', trace = trace c @ [CallExec sql]\<rparr>,
               queryResults := Some Map.empty,
               queryMessage := Some ''Query executed successfully. No rows returned.''\<rparr>
       else s\<lparr>db := Some \<lparr>handle = d', trace = trace c @ [CallExec sql]\<rparr>,
               queryResults := Some (resultTables P result)\<rparr>)"
  using assms
  by (simp add: executeQuery_select_def eff_bind_def with_db_Some conn_exec_def eff_upd_def eff_seq_def)


lemma executeQuery_None: "db s = None \<Longrightarrow> executeQuery P s = (Inr (), s)"
  by (simp add: executeQuery_def)

lemma executeQuery_dml_no_throw: "db s = Some c \<Longrightarrow> fst (executeQuery_dml P sql s) = Inr ()"
proof -
  assume c: "db s = Some c"
  obtain r d' where r: "db_run P (handle c) sql = (r, d')" by (cases "db_run P (handle c) sql")
  show ?thesis
    by (cases r) (simp_all add: executeQuery_dml_throw[OF c] executeQuery_dml_ok[OF c] r)
qed

lemma executeQuery_dml_path:
  assumes "db s = Some c" "isDMLQuery (editorContent s)"
  shows "executeQuery P s =
    (Inr (), (refetch P (snd (executeQuery_dml P (editorContent s)
                 (s\<lparr>queryError := None, queryMessage := None\<rparr>))))\<lparr>leftWidth := leftWidth s\<rparr>)"
proof -
  let ?s0 = "s\<lparr>queryError := None, queryMessage := None\<rparr>"
  have c0: "db ?s0 = Some c" using assms(1) by simp
  have nt: "fst (executeQuery_dml P (editorContent s) ?s0) = Inr ()"
    by (rule executeQuery_dml_no_throw[OF c0])
  show ?thesis using assms nt
    by (simp add: executeQuery_def eff_seq_upd try_catch_def eff_seq_no_throw seq_fetch3)
qed

lemma executeQuery_select_path:
  assumes "db s = Some c" "\<not> isDMLQuery (editorContent s)"
  shows "executeQuery P s =
    (case executeQuery_select P (editorContent s) (s\<lparr>queryError := None, queryMessage := None\<rparr>) of
       (Inr u, s1) \<Rightarrow> (Inr (), (refetch P s1)\<lparr>leftWidth := leftWidth s\<rparr>)
     | (Inl e, s1) \<Rightarrow> (Inr (), refetch P (s1\<lparr>queryError := Some (''SQL Error: '' @ errorMessage P e),
                                            queryResults := Some Map.empty\<rparr>)))"
proof -
  let ?s0 = "s\<lparr>queryError := None, queryMessage := None\<rparr>"
  obtain r s1 where r: "executeQuery_select P (editorContent s) ?s0 = (r, s1)"
    by (cases "executeQuery_select P (editorContent s) ?s0")
  show ?thesis
  proof (cases r)
    case (Inl e)
    with assms r show ?thesis
      by (simp add: executeQuery_def eff_seq_upd try_catch_def seq_fetch eff_seq_def[of "executeQuery_select P (editorContent s)"] eff_bind_def)
  next
    case (Inr u)
    with assms r show ?thesis
      by (simp add: executeQuery_def eff_seq_upd try_catch_def eff_seq_no_throw seq_fetch3)
  qed
qed

lemma executeQuery_no_throw: "fst (executeQuery P s) = Inr ()"
proof (cases "db s")
  case None
  then show ?thesis by (simp add: executeQuery_None)
next
  case (Some c)
  show ?thesis
  proof (cases "isDMLQuery (editorContent s)")
    case True
    then show ?thesis by (simp add: executeQuery_dml_path[OF Some])
  next
    case False
    then show ?thesis
      by (cases "executeQuery_select P (editorContent s) (s\<lparr>queryError := None, queryMessage := None\<rparr>)";
          cases "fst (executeQuery_select P (editorContent s) (s\<lparr>queryError := None, queryMessage := None\<rparr>))")
         (simp_all add: executeQuery_select_path[OF Some])
  qed
qed


lemma fetchTables_cases:
  obtains (unchanged) "snd (fetchTables P s) = s"
  | (failed) c' where "snd (fetchTables P s) = s\<lparr>db := Some c'\<rparr>"
  | (ok) c' td where "snd (fetchTables P s) = s\<lparr>db := Some c', tables := td\<rparr>"
proof (cases "db s")
  case None
  then show ?thesis using unchanged by (simp add: fetchTables_None)
next
  case (Some c)
  obtain r c' where r: "readTables P c = (r, c')" by (cases "readTables P c")
  show ?thesis
  proof (cases r)
    case (Inl e)
    then show ?thesis using failed[of c'] r by (simp add: fetchTables_eq[OF Some])
  next
    case (Inr td)
    then show ?thesis using ok[where c'=c' and td=td] r by (simp add: fetchTables_eq[OF Some])
  qed
qed

lemma fetchTableSchemas_cases:
  obtains (unchanged) "snd (fetchTableSchemas P s) = s"
  | (failed) c' where "snd (fetchTableSchemas P s) = s\<lparr>db := Some c'\<rparr>"
  | (ok) c' sch where "snd (fetchTableSchemas P s) = s\<lparr>db := Some c', tableSchemas := sch\<rparr>"
proof (cases "db s")
  case None
  then show ?thesis using unchanged by (simp add: fetchTableSchemas_None)
next
  case (Some c)
  obtain r c' where r: "readSchemas P c = (r, c')" by (cases "readSchemas P c")
  show ?thesis
  proof (cases r)
    case (Inl e)
    then show ?thesis using failed[of c'] r by (simp add: fetchTableSchemas_eq[OF Some])
  next
    case (Inr sch)
    then show ?thesis using ok[where c'=c' and sch=sch] r by (simp add: fetchTableSchemas_eq[OF Some])
  qed
qed

lemma fetchTables_frame:
  "queryError (snd (fetchTables P s)) = queryError s"
  "queryMessage (snd (fetchTables P s)) = queryMessage s"
  "queryResults (snd (fetchTables P s)) = queryResults s"
  "leftWidth (snd (fetchTables P s)) = leftWidth s"
  "topHeightLeft (snd (fetchTables P s)) = topHeightLeft s"
  "topHeightRight (snd (fetchTables P s)) = topHeightRight s"
  "editorContent (snd (fetchTables P s)) = editorContent s"
  "selectedFile (snd (fetchTables P s)) = selectedFile s"
  "alerts (snd (fetchTables P s)) = alerts s"
  "downloads (snd (fetchTables P s)) = downloads s"
  "listeners (snd (fetchTables P s)) = listeners s"
  "tableSchemas (snd (fetchTables P s)) = tableSchemas s"
  by (cases rule: fetchTables_cases[of P s]; simp)+

lemma fetchTableSchemas_frame:
  "queryError (snd (fetchTableSchemas P s)) = queryError s"
  "queryMessage (snd (fetchTableSchemas P s)) = queryMessage s"
  "queryResults (snd (fetchTableSchemas P s)) = queryResults s"
  "leftWidth (snd (fetchTableSchemas P s)) = leftWidth s"
  "topHeightLeft (snd (fetchTableSchemas P s)) = topHeightLeft s"
  "topHeightRight (snd (fetchTableSchemas P s)) = topHeightRight s"
  "editorContent (snd (fetchTableSchemas P s)) = editorContent s"
  "selectedFile (snd (fetchTableSchemas P s)) = selectedFile s"
  "alerts (snd (fetchTableSchemas P s)) = alerts s"
  "downloads (snd (fetchTableSchemas P s)) = downloads s"
  "listeners (snd (fetchTableSchemas P s)) = listeners s"
  "tables (snd (fetchTableSchemas P s)) = tables s"
  by (cases rule: fetchTableSchemas_cases[of P s]; simp)+

lemma refetch_frame:
  "queryError (refetch P s) = queryError s"
  "queryMessage (refetch P s) = queryMessage s"
  "queryResults (refetch P s) = queryResults s"
  "leftWidth (refetch P s) = leftWidth s"
  "topHeightLeft (refetch P s) = topHeightLeft s"
  "topHeightRight (refetch P s) = topHeightRight s"
  "editorContent (refetch P s) = editorContent s"
  "selectedFile (refetch P s) = selectedFile s"
  "alerts (refetch P s) = alerts s"
  "downloads (refetch P s) = downloads s"
  "listeners (refetch P s) = listeners s"
  by (simp_all add: refetch_eq fetchTables_frame fetchTableSchemas_frame)


lemma render_error:
  "queryError s = Some (''SQL Error: '' @ m) \<Longrightarrow> results_pane (render s) = ErrorBox (''SQL Error: '' @ m)"
  by (simp add: render_def truthy_def)

text \<open>
  Claim C1. \<open>executeQuery\<close> always completes normally. If \<open>db.run\<close> (statement classed
  as DML) or \<open>db.exec\<close> (any other statement) throws \<open>e\<close>, then \<open>queryError\<close> becomes
  \<open>"SQL Error: "\<close> followed by the message of \<open>e\<close>, the results pane shows it, and
  nothing else is done about the failure: the final state is the state the engine left,
  with the error recorded (and, on the \<open>db.exec\<close> path, \<open>queryResults\<close> emptied), after
  the same \<open>fetchTables(); fetchTableSchemas()\<close> that follows a successful statement.
\<close>

theorem executeQuery_catches_engine_errors:
  "fst (executeQuery P s) = Inr () \<and>
   (\<forall>c e d'. db s = Some c \<longrightarrow> isDMLQuery (editorContent s) \<longrightarrow>
        db_run P (handle c) (editorContent s) = (Inl e, d') \<longrightarrow>
      snd (executeQuery P s) =
        (refetch P (s\<lparr>queryMessage := None,
                       db := Some \<lparr>handle = d', trace = trace c @ [CallRun (editorContent s)]\<rparr>,
                       queryError := Some (''SQL Error: '' @ errorMessage P e)\<rparr>))
          \<lparr>leftWidth := leftWidth s\<rparr> \<and>
      queryError (snd (executeQuery P s)) = Some (''SQL Error: '' @ errorMessage P e) \<and>
      results_pane (render (snd (executeQuery P s))) = ErrorBox (''SQL Error: '' @ errorMessage P e)) \<and>
   (\<forall>c e d'. db s = Some c \<longrightarrow> \<not> isDMLQuery (editorContent s) \<longrightarrow>
        db_exec P (handle c) (editorContent s) = (Inl e, d') \<longrightarrow>
      snd (executeQuery P s) =
        refetch P (s\<lparr>queryMessage := None,
                      db := Some \<lparr>handle = d', trace = trace c @ [CallExec (editorContent s)]\<rparr>,
                      queryError := Some (''SQL Error: '' @ errorMessage P e),
                      queryResults := Some Map.empty\<rparr>) \<and>
      queryError (snd (executeQuery P s)) = Some (''SQL Error: '' @ errorMessage P e) \<and>
      results_pane (render (snd (executeQuery P s))) = ErrorBox (''SQL Error: '' @ errorMessage P e))"
proof (intro conjI allI impI)
  show "fst (executeQuery P s) = Inr ()" by (rule executeQuery_no_throw)
next
  fix c e d'
  assume c: "db s = Some c" and dml: "isDMLQuery (editorContent s)"
    and r: "db_run P (handle c) (editorContent s) = (Inl e, d')"
  let ?s0 = "s\<lparr>queryError := None, queryMessage := None\<rparr>"
  have c0: "db ?s0 = Some c" using c by simp
  show eq: "snd (executeQuery P s) =
        (refetch P (s\<lparr>queryMessage := None,
                       db := Some \<lparr>handle = d', trace = trace c @ [CallRun (editorContent s)]\<rparr>,
                       queryError := Some (''SQL Error: '' @ errorMessage P e)\<rparr>))
          \<lparr>leftWidth := leftWidth s\<rparr>"
    using executeQuery_dml_throw[OF c0 r] by (simp add: executeQuery_dml_path[OF c dml])
  show q: "queryError (snd (executeQuery P s)) = Some (''SQL Error: '' @ errorMessage P e)"
    by (simp add: eq refetch_frame)
  show "results_pane (render (snd (executeQuery P s))) = ErrorBox (''SQL Error: '' @ errorMessage P e)"
    by (rule render_error[OF q])
next
  fix c e d'
  assume c: "db s = Some c" and dml: "\<not> isDMLQuery (editorContent s)"
    and r: "db_exec P (handle c) (editorContent s) = (Inl e, d')"
  let ?s0 = "s\<lparr>queryError := None, queryMessage := None\<rparr>"
  have c0: "db ?s0 = Some c" using c by simp
  show eq: "snd (executeQuery P s) =
        refetch P (s\<lparr>queryMessage := None,
                      db := Some \<lparr>handle = d', trace = trace c @ [CallExec (editorContent s)]\<rparr>,
                      queryError := Some (''SQL Error: '' @ errorMessage P e),
                      queryResults := Some Map.empty\<rparr>)"
    using executeQuery_select_throw[OF c0 r] by (simp add: executeQuery_select_path[OF c dml])
  show q: "queryError (snd (executeQuery P s)) = Some (''SQL Error: '' @ errorMessage P e)"
    by (simp add: eq refetch_frame)
  show "results_pane (render (snd (executeQuery P s))) = ErrorBox (''SQL Error: '' @ errorMessage P e)"
    by (rule render_error[OF q])
qed

text \<open>
  Both error paths on the scripted engine: an \<open>UPDATE\<close> of a table that does not exist, and
  a misspelt \<open>SELECT\<close>.
\<close>

lemma demo_dml: "isDMLQuery ''UPDATE u SET x = 1''" by code_simp
lemma demo_sel: \<open>\<not> isDMLQuery ''SELEC''\<close> by code_simp

theorem executeQuery_catches_engine_errors_witness:
  \<open>fst (executeQuery demo_platform (demo_world ''UPDATE u SET x = 1'')) = Inr () \<and>
   queryError (snd (executeQuery demo_platform (demo_world ''UPDATE u SET x = 1''))) =
     Some ''SQL Error: no such table: u'' \<and>
   queryError (snd (executeQuery demo_platform (demo_world ''SELEC''))) =
     Some ''SQL Error: near "SELEC": syntax error''\<close>
proof -
  have d: "db (demo_world sql) = Some demo_conn" "editorContent (demo_world sql) = sql" for sql
    by (simp_all add: demo_world_def)
  have r: "db_run demo_platform (handle demo_conn) ''UPDATE u SET x = 1'' = (Inl (JsError ''no such table: u''), 0)"
    by (simp add: demo_platform_def demo_run_def demo_conn_def)
  have x: \<open>db_exec demo_platform (handle demo_conn) ''SELEC'' = (Inl (JsError ''near "SELEC": syntax error''), 0)\<close>
    by (simp add: demo_platform_def demo_exec_def demo_conn_def listTablesSql_def)
  from executeQuery_catches_engine_errors[of demo_platform "demo_world ''UPDATE u SET x = 1''"]
    executeQuery_catches_engine_errors[of demo_platform "demo_world ''SELEC''"]
    demo_dml demo_sel r x
  show ?thesis by (simp add: d errorMessage_def refetch_frame)
qed

section \<open>Download\<close>

lemma downloadDatabase_None:
  "db s = None \<Longrightarrow> downloadDatabase P s =
     (Inr (), s\<lparr>alerts := alerts s @
        [''No database to download. Please create tables or load a database first.'']\<rparr>)"
  by (simp add: downloadDatabase_def alert_def eff_upd_def)

lemma downloadDatabase_ok:
  assumes "db s = Some c" "db_export P (handle c) = (Inr data, d')"
  shows "downloadDatabase P s =
     (Inr (), s\<lparr>db := Some \<lparr>handle = d', trace = trace c @ [CallExport]\<rparr>,
        downloads := downloads s @
          [\<lparr>dl_name = (case selectedFile s of Some f \<Rightarrow> file_name f
                        | None \<Rightarrow> ''sql-playground-export.sqlite''),
            dl_bytes = data, dl_type = ''application/x-sqlite3''\<rparr>],
        alerts := alerts s @
          [''Database '' @ [CHR 0x22] @
           (case selectedFile s of Some f \<Rightarrow> file_name f | None \<Rightarrow> ''sql-playground-export.sqlite'') @
           [CHR 0x22] @ '' downloaded successfully!'']\<rparr>)"
  using assms
  by (simp add: downloadDatabase_def try_catch_def eff_bind_def with_db_Some conn_export_def
      eff_seq_def alert_def eff_upd_def Let_def)

lemma downloadDatabase_throw:
  assumes "db s = Some c" "db_export P (handle c) = (Inl e, d')"
  shows "downloadDatabase P s =
     (Inr (), s\<lparr>db := Some \<lparr>handle = d', trace = trace c @ [CallExport]\<rparr>,
        alerts := alerts s @ [''Error downloading database: '' @ errorMessage P e]\<rparr>)"
  using assms
  by (simp add: downloadDatabase_def try_catch_def eff_bind_def with_db_Some conn_export_def
      alert_def eff_upd_def)

text \<open>
  Claim C7. With a database loaded and \<open>db.export()\<close> returning \<open>data\<close>,
  \<open>downloadDatabase\<close> starts exactly one download: its bytes are \<open>data\<close> and its name is the
  name of the selected file, or \<open>sql-playground-export.sqlite\<close> when no file is selected.
  With no database it shows an alert and changes nothing else. (If \<open>db.export()\<close> throws,
  the handler shows the error in an alert and starts no download.)
\<close>

theorem downloadDatabase_exports_engine_image:
  "(db s = None \<longrightarrow>
      downloadDatabase P s =
        (Inr (), s\<lparr>alerts := alerts s @
           [''No database to download. Please create tables or load a database first.'']\<rparr>) \<and>
      downloads (snd (downloadDatabase P s)) = downloads s) \<and>
   (\<forall>c data d'. db s = Some c \<longrightarrow> db_export P (handle c) = (Inr data, d') \<longrightarrow>
      fst (downloadDatabase P s) = Inr () \<and>
      downloads (snd (downloadDatabase P s)) = downloads s @
        [\<lparr>dl_name = (case selectedFile s of Some f \<Rightarrow> file_name f
                      | None \<Rightarrow> ''sql-playground-export.sqlite''),
          dl_bytes = data, dl_type = ''application/x-sqlite3''\<rparr>]) \<and>
   (\<forall>c e d'. db s = Some c \<longrightarrow> db_export P (handle c) = (Inl e, d') \<longrightarrow>
      fst (downloadDatabase P s) = Inr () \<and>
      downloads (snd (downloadDatabase P s)) = downloads s \<and>
      alerts (snd (downloadDatabase P s)) =
        alerts s @ [''Error downloading database: '' @ errorMessage P e])"
  by (simp add: downloadDatabase_None downloadDatabase_ok downloadDatabase_throw)

theorem downloadDatabase_exports_engine_image_witness:
  "downloads (snd (downloadDatabase demo_platform (demo_world ''SELECT 1''))) =
     [\<lparr>dl_name = ''sql-playground-export.sqlite'', dl_bytes = [83, 81, 76],
       dl_type = ''application/x-sqlite3''\<rparr>] \<and>
   downloads (snd (downloadDatabase demo_platform
      ((demo_world ''SELECT 1'')\<lparr>selectedFile := Some \<lparr>file_name = ''shop.db'', file_bytes = []\<rparr>\<rparr>))) =
     [\<lparr>dl_name = ''shop.db'', dl_bytes = [83, 81, 76], dl_type = ''application/x-sqlite3''\<rparr>] \<and>
   downloads (snd (downloadDatabase demo_platform (initial_world :: nat world))) = [] \<and>
   alerts (snd (downloadDatabase demo_platform (initial_world :: nat world))) =
     [''No database to download. Please create tables or load a database first.'']"
proof -
  have x: "db_export demo_platform (handle demo_conn) = (Inr [83, 81, 76], 0)"
    by (simp add: demo_platform_def demo_conn_def)
  have n: "db (initial_world :: nat world) = None" by (simp add: initial_world_def)
  from downloadDatabase_exports_engine_image[of "demo_world ''SELECT 1''" demo_platform]
    downloadDatabase_exports_engine_image[of
      "(demo_world ''SELECT 1'')\<lparr>selectedFile := Some \<lparr>file_name = ''shop.db'', file_bytes = []\<rparr>\<rparr>" demo_platform]
    downloadDatabase_exports_engine_image[of "initial_world :: nat world" demo_platform] x n
  show ?thesis by (simp add: demo_world_def initial_world_def)
qed

section \<open>The navigation bar\<close>

text \<open>
  Claim C8. The navigation bar calls its parent in three ways only. A change of the file
  input with at least one file calls \<open>onFileSelect\<close> once, with the first file; a click on
  the download button calls \<open>onDownloadDb\<close> once; a click on the clear button calls
  \<open>onClearDb\<close> once if the user confirms and calls nothing if the user declines. A change
  of the file input with no file calls nothing.
\<close>

theorem navbar_emits_three_events:
  "snd (navbar_step (FileInputChange (Some (f # fs))) n) = [OnFileSelect f] \<and>
   snd (navbar_step (FileInputChange (Some [])) n) = [] \<and>
   snd (navbar_step (FileInputChange None) n) = [] \<and>
   snd (navbar_step DownloadClick n) = [OnDownloadDb] \<and>
   snd (navbar_step (ClearClick True) n) = [OnClearDb] \<and>
   snd (navbar_step (ClearClick False) n) = [] \<and>
   navbar_step (ClearClick False) n = (n, []) \<and>
   (\<exists>calls. snd (navbar_step ev n) = calls \<and> length calls \<le> 1 \<and>
      set calls \<subseteq> range OnFileSelect \<union> {OnDownloadDb, OnClearDb})"
proof -
  have "length (snd (navbar_step ev n)) \<le> 1"
    by (cases ev) (auto simp: handleFileUpload_def handleClearDb_def split: option.splits list.splits)
  moreover have "set (snd (navbar_step ev n)) \<subseteq> range OnFileSelect \<union> {OnDownloadDb, OnClearDb}"
    by (cases ev) (auto simp: handleFileUpload_def handleClearDb_def split: option.splits list.splits)
  ultimately show ?thesis
    by (simp add: handleFileUpload_def handleClearDb_def)
qed

section \<open>Result sets keyed by their column names\<close>

lemma fold_set_dom:
  "dom (fold (\<lambda>t m. set_property m (k t) (v t)) rs m0) = dom m0 \<union> (k ` set rs - {''__proto__''})"
  by (induction rs arbitrary: m0) (auto simp: set_property_def)

lemma fold_set_other:
  "x \<notin> k ` set rs \<Longrightarrow> fold (\<lambda>t m. set_property m (k t) (v t)) rs m0 x = m0 x"
  by (induction rs arbitrary: m0) (auto simp: set_property_def)

lemma resultTables_dom: "dom (resultTables P rs) = resultKey ` set rs - {''__proto__''}"
  by (simp add: resultTables_def resultKey_def fold_set_dom)

lemma resultTables_last_wins:
  assumes "resultKey r \<notin> resultKey ` set post" "resultKey r \<noteq> ''__proto__''"
  shows "resultTables P (pre @ r # post) (resultKey r) = Some (resultRows P r)"
proof -
  have "resultTables P (pre @ r # post) (resultKey r) =
      set_property (resultTables P pre) (resultKey r) (resultRows P r) (resultKey r)"
    using assms(1) by (simp add: resultTables_def resultKey_def fold_set_other)
  with assms(2) show ?thesis by (simp add: set_property_def)
qed

lemma resultTables_card:
  "card (dom (resultTables P rs)) \<le> length rs"
  "\<not> distinct (map resultKey rs) \<Longrightarrow> card (dom (resultTables P rs)) < length rs"
proof -
  have "card (dom (resultTables P rs)) \<le> card (set (map resultKey rs))"
    unfolding resultTables_dom by (rule card_mono) auto
  then have e: "card (dom (resultTables P rs)) \<le> card (set (map resultKey rs))" .
  show "card (dom (resultTables P rs)) \<le> length rs"
    using e card_length[of "map resultKey rs"] by simp
  assume "\<not> distinct (map resultKey rs)"
  then have "card (set (map resultKey rs)) \<noteq> length (map resultKey rs)"
    using card_distinct by blast
  then show "card (dom (resultTables P rs)) < length rs"
    using e card_length[of "map resultKey rs"] by simp
qed

lemma executeQuery_select_results:
  assumes c: "db s = Some c" and nd: "\<not> isDMLQuery (editorContent s)"
    and r: "db_exec P (handle c) (editorContent s) = (Inr rs, d')"
  shows "queryResults (snd (executeQuery P s)) = Some (if rs = [] then Map.empty else resultTables P rs)"
    and "queryError (snd (executeQuery P s)) = None"
    and "queryMessage (snd (executeQuery P s)) =
          (if rs = [] then Some ''Query executed successfully. No rows returned.'' else None)"
proof -
  let ?s0 = "s\<lparr>queryError := None, queryMessage := None\<rparr>"
  have c0: "db ?s0 = Some c" using c by simp
  note ok = executeQuery_select_ok[OF c0 r]
  show "queryResults (snd (executeQuery P s)) = Some (if rs = [] then Map.empty else resultTables P rs)"
    by (simp add: executeQuery_select_path[OF c nd] ok refetch_frame)
  show "queryError (snd (executeQuery P s)) = None"
    by (simp add: executeQuery_select_path[OF c nd] ok refetch_frame)
  show "queryMessage (snd (executeQuery P s)) =
          (if rs = [] then Some ''Query executed successfully. No rows returned.'' else None)"
    by (simp add: executeQuery_select_path[OF c nd] ok refetch_frame)
qed

text \<open>
  Claim C9. When \<open>db.exec\<close> returns the result sets \<open>rs\<close> for a statement that is not
  classed as DML, \<open>queryResults\<close> is the object with one property per result set, named by
  the column names joined with \<open>", "\<close> (the name \<open>__proto__\<close> apart, which an
  assignment does not create); a later result set with the same name replaces an earlier
  one. So the number of entries never exceeds the number of result sets, and is strictly
  smaller as soon as two result sets have the same column names.
\<close>

theorem executeQuery_result_sets_collide:
  "(\<forall>c d'. db s = Some c \<longrightarrow> \<not> isDMLQuery (editorContent s) \<longrightarrow>
       db_exec P (handle c) (editorContent s) = (Inr rs, d') \<longrightarrow> rs \<noteq> [] \<longrightarrow>
     queryResults (snd (executeQuery P s)) = Some (resultTables P rs)) \<and>
   dom (resultTables P rs) =
     (\<lambda>table. join '', '' (qr_columns table)) ` set rs - {''__proto__''} \<and>
   (\<forall>pre r post. rs = pre @ r # post \<longrightarrow>
       join '', '' (qr_columns r) \<notin> (\<lambda>table. join '', '' (qr_columns table)) ` set post \<longrightarrow>
       join '', '' (qr_columns r) \<noteq> ''__proto__'' \<longrightarrow>
     resultTables P rs (join '', '' (qr_columns r)) = Some (resultRows P r)) \<and>
   card (dom (resultTables P rs)) \<le> length rs \<and>
   (\<forall>i j. i < j \<longrightarrow> j < length rs \<longrightarrow> qr_columns (rs ! i) = qr_columns (rs ! j) \<longrightarrow>
     card (dom (resultTables P rs)) < length rs)"
proof (intro conjI allI impI)
  fix c d'
  assume "db s = Some c" "\<not> isDMLQuery (editorContent s)"
    "db_exec P (handle c) (editorContent s) = (Inr rs, d')" "rs \<noteq> []"
  then show "queryResults (snd (executeQuery P s)) = Some (resultTables P rs)"
    by (simp add: executeQuery_select_results)
next
  show "dom (resultTables P rs) =
     (\<lambda>table. join '', '' (qr_columns table)) ` set rs - {''__proto__''}"
    using resultTables_dom[of P rs] by (simp add: resultKey_def[abs_def])
next
  fix pre r post
  assume "rs = pre @ r # post"
    "join '', '' (qr_columns r) \<notin> (\<lambda>table. join '', '' (qr_columns table)) ` set post"
    "join '', '' (qr_columns r) \<noteq> ''__proto__''"
  then show "resultTables P rs (join '', '' (qr_columns r)) = Some (resultRows P r)"
    using resultTables_last_wins[of r post P pre] by (simp add: resultKey_def[abs_def])
next
  show "card (dom (resultTables P rs)) \<le> length rs" by (rule resultTables_card)
next
  fix i j
  assume ij: "i < j" "j < length rs" "qr_columns (rs ! i) = qr_columns (rs ! j)"
  then have "map resultKey rs ! i = map resultKey rs ! j" "i < length (map resultKey rs)"
    "j < length (map resultKey rs)" "i \<noteq> j"
    by (simp_all add: resultKey_def)
  then have "\<not> distinct (map resultKey rs)"
    using nth_eq_iff_index_eq by blast
  then show "card (dom (resultTables P rs)) < length rs" by (rule resultTables_card)
qed


text \<open>Two result sets with the single column \<open>a\<close>: one entry, holding the second.\<close>

lemma demo_two_selects: "\<not> isDMLQuery ''SELECT 1 AS a; SELECT 2 AS a;''"
  by code_simp

theorem executeQuery_result_sets_collide_witness:
  "queryResults (snd (executeQuery demo_platform (demo_world ''SELECT 1 AS a; SELECT 2 AS a;''))) =
     Some (resultTables demo_platform
       [\<lparr>qr_columns = [''a''], qr_values = [[JNumber (Fin 1)]]\<rparr>,
        \<lparr>qr_columns = [''a''], qr_values = [[JNumber (Fin 2)]]\<rparr>]) \<and>
   dom (resultTables demo_platform
       [\<lparr>qr_columns = [''a''], qr_values = [[JNumber (Fin 1)]]\<rparr>,
        \<lparr>qr_columns = [''a''], qr_values = [[JNumber (Fin 2)]]\<rparr>]) = {''a''} \<and>
   resultTables demo_platform
       [\<lparr>qr_columns = [''a''], qr_values = [[JNumber (Fin 1)]]\<rparr>,
        \<lparr>qr_columns = [''a''], qr_values = [[JNumber (Fin 2)]]\<rparr>] ''a'' =
     Some [[''a'' \<mapsto> JNumber (Fin 2)]] \<and>
   card (dom (resultTables demo_platform
       [\<lparr>qr_columns = [''a''], qr_values = [[JNumber (Fin 1)]]\<rparr>,
        \<lparr>qr_columns = [''a''], qr_values = [[JNumber (Fin 2)]]\<rparr>])) < 2"
proof -
  let ?r1 = "\<lparr>qr_columns = [''a''], qr_values = [[JNumber (Fin 1)]]\<rparr>"
  let ?r2 = "\<lparr>qr_columns = [''a''], qr_values = [[JNumber (Fin 2)]]\<rparr>"
  let ?q = "''SELECT 1 AS a; SELECT 2 AS a;''"
  have d: "db (demo_world ?q) = Some demo_conn" "editorContent (demo_world ?q) = ?q"
    by (simp_all add: demo_world_def)
  have x: "db_exec demo_platform (handle demo_conn) ?q = (Inr [?r1, ?r2], 0)"
    by (simp add: demo_platform_def demo_exec_def demo_conn_def listTablesSql_def)
  have rows: "resultRows demo_platform ?r2 = [[''a'' \<mapsto> JNumber (Fin 2)]]"
    by (simp add: resultRows_def rowObject_def Object_fromEntries_def js_index_def)
  note T = executeQuery_result_sets_collide[of "demo_world ?q" demo_platform "[?r1, ?r2]"]
  have 1: "queryResults (snd (executeQuery demo_platform (demo_world ?q))) =
     Some (resultTables demo_platform [?r1, ?r2])"
    using T d x demo_two_selects by simp
  have 2: "dom (resultTables demo_platform [?r1, ?r2]) = {''a''}"
    using T by simp
  have 3: "resultTables demo_platform [?r1, ?r2] ''a'' = Some [[''a'' \<mapsto> JNumber (Fin 2)]]"
    using conjunct1[OF conjunct2[OF conjunct2[OF T]], rule_format, of "[?r1]" ?r2 "[]"] rows by simp
  have 4: "card (dom (resultTables demo_platform [?r1, ?r2])) < 2"
    using conjunct2[OF conjunct2[OF conjunct2[OF conjunct2[OF T]]], rule_format, of 0 1] by simp
  from 1 2 3 4 show ?thesis by blast
qed

section \<open>Only primitive values are stored\<close>

lemma convertSqlValue_primitive: "v \<noteq> JUndefined \<Longrightarrow> is_primitive (convertSqlValue P v)"
  by (cases v) (simp_all add: convertSqlValue_def is_primitive_def)

lemma inline_convert_primitive:
  "v \<noteq> JUndefined \<Longrightarrow>
   is_primitive (case v of JUint8Array bs \<Rightarrow> JString (textDecode P bs) | _ \<Rightarrow> v)"
  by (cases v) (simp_all add: is_primitive_def)

lemma ran_fold_upd:
  fixes es :: "('k \<times> 'w) list" and m0 :: "'k \<rightharpoonup> 'w"
  shows "v \<in> ran (fold (\<lambda>(k, v) m. m(k \<mapsto> v)) es m0) \<Longrightarrow> v \<in> ran m0 \<or> v \<in> snd ` set es"
proof -
  define f where "f = (\<lambda>(k::'k, v::'w) (m::'k \<rightharpoonup> 'w). m(k \<mapsto> v))"
  have step: "f (k, w) m = m(k \<mapsto> w)" for k w m by (simp add: f_def)
  have "v \<in> ran (fold f es m0) \<Longrightarrow> v \<in> ran m0 \<or> v \<in> snd ` set es"
  proof (induction es arbitrary: m0)
    case Nil
    then show ?case by simp
  next
    case (Cons e es)
    obtain k w where e: "e = (k, w)" by (cases e)
    from Cons.prems have "v \<in> ran (fold f es (m0(k \<mapsto> w)))" by (simp add: e step)
    from Cons.IH[OF this] have "v \<in> ran (m0(k \<mapsto> w)) \<or> v \<in> snd ` set es" .
    moreover have "v \<in> ran (m0(k \<mapsto> w)) \<Longrightarrow> v = w \<or> v \<in> ran m0"
      by (auto simp: ran_def split: if_splits)
    ultimately show ?case by (auto simp: e)
  qed
  then show "v \<in> ran (fold (\<lambda>(k, v) m. m(k \<mapsto> v)) es m0) \<Longrightarrow> v \<in> ran m0 \<or> v \<in> snd ` set es"
    by (simp add: f_def)
qed

lemma ran_fromEntries: "v \<in> ran (Object_fromEntries es) \<Longrightarrow> v \<in> snd ` set es"
  using ran_fold_upd[of v es Map.empty] by (simp add: Object_fromEntries_def)

lemma rowObject_primitive:
  assumes len: "length cols \<le> length row" and def: "\<forall>v \<in> set row. v \<noteq> JUndefined"
    and conv: "\<And>v. v \<noteq> JUndefined \<Longrightarrow> is_primitive (conv v)"
    and v: "v \<in> ran (rowObject conv cols row)"
  shows "is_primitive v"
proof -
  from ran_fromEntries[OF v[unfolded rowObject_def]]
  obtain col i where ci: "(col, i) \<in> set (zip cols [0..<length cols])" and v': "v = conv (js_index row i)"
    by auto
  from ci have "i < length cols" by (auto dest: set_zip_rightD)
  with len have "i < length row" by simp
  then have "js_index row i \<in> set row" by (simp add: js_index_def)
  with def conv show ?thesis by (simp add: v')
qed

lemma primitive_rows_upd:
  "primitive_rows td \<Longrightarrow> (\<forall>row \<in> set rows. \<forall>v \<in> ran row. is_primitive v) \<Longrightarrow>
   primitive_rows (set_property td k rows)"
  by (simp add: primitive_rows_def set_property_def)

lemma primitive_rows_empty: "primitive_rows Map.empty"
  by (simp add: primitive_rows_def)

lemma wf_rows_primitive:
  assumes "wf_result r" and conv: "\<And>v. v \<noteq> JUndefined \<Longrightarrow> is_primitive (conv v)"
  shows "\<forall>row \<in> set (map (rowObject conv (qr_columns r)) (qr_values r)). \<forall>v \<in> ran row. is_primitive v"
  using assms(1) by (auto simp: wf_result_def intro: rowObject_primitive[OF _ _ conv])

lemma conn_exec_typed:
  "engine_typed P \<Longrightarrow> conn_exec P q c = (Inr rs, c') \<Longrightarrow> r \<in> set rs \<Longrightarrow> wf_result r"
  by (cases "db_exec P (handle c) q") (auto simp: conn_exec_def engine_typed_def)

lemma fetchTables_each_primitive:
  assumes t: "engine_typed P" and p: "primitive_rows td"
    and e: "fetchTables_each P t td c = (Inr td', c')"
  shows "primitive_rows td'"
proof -
  obtain r c1 where x: "conn_exec P (selectAllSql P t) c = (r, c1)"
    by (cases "conn_exec P (selectAllSql P t) c")
  show ?thesis
  proof (cases r)
    case (Inl err)
    with e x show ?thesis by (simp add: fetchTables_each_def eff_bind_def)
  next
    case (Inr result)
    have rows: "\<forall>row \<in> set (case result of [] \<Rightarrow> []
                 | r # _ \<Rightarrow> map (rowObject (convertSqlValue P) (qr_columns r)) (qr_values r)).
               \<forall>v \<in> ran row. is_primitive v"
    proof (cases result)
      case Nil
      then show ?thesis by simp
    next
      case (Cons r0 rest)
      have "wf_result r0" using conn_exec_typed[OF t x[unfolded Inr]] Cons by simp
      from wf_rows_primitive[OF this convertSqlValue_primitive] show ?thesis by (simp add: Cons)
    qed
    from e x Inr have "td' = set_property td (toStr P t) (case result of [] \<Rightarrow> []
                 | r # _ \<Rightarrow> map (rowObject (convertSqlValue P) (qr_columns r)) (qr_values r))"
      by (simp add: fetchTables_each_def eff_bind_def eff_ret_def)
    with primitive_rows_upd[OF p rows] show ?thesis by simp
  qed
qed

lemma fetchTables_forEach_primitive:
  "engine_typed P \<Longrightarrow> primitive_rows td \<Longrightarrow> fetchTables_forEach P ts td c = (Inr td', c') \<Longrightarrow>
   primitive_rows td'"
proof (induction ts arbitrary: td c)
  case Nil
  then show ?case by (simp add: eff_ret_def)
next
  case (Cons t ts)
  obtain r c1 where x: "fetchTables_each P t td c = (r, c1)" by (cases "fetchTables_each P t td c")
  show ?case
  proof (cases r)
    case (Inl err)
    with Cons.prems(3) x show ?thesis by (simp add: eff_bind_def)
  next
    case (Inr td1)
    have "primitive_rows td1"
      using fetchTables_each_primitive[OF Cons.prems(1,2)] x Inr by simp
    moreover have "fetchTables_forEach P ts td1 c1 = (Inr td', c')"
      using Cons.prems(3) x Inr by (simp add: eff_bind_def)
    ultimately show ?thesis using Cons.IH[OF Cons.prems(1)] by blast
  qed
qed

lemma readTables_primitive:
  assumes "engine_typed P" "readTables P c = (Inr td, c')"
  shows "primitive_rows td"
proof -
  obtain r c1 where x: "conn_exec P listTablesSql c = (r, c1)" by (cases "conn_exec P listTablesSql c")
  show ?thesis
  proof (cases r)
    case (Inl err)
    with assms(2) x show ?thesis by (simp add: readTables_def eff_bind_def)
  next
    case (Inr tq)
    with assms(2) x have "fetchTables_forEach P (tableNamesOf tq) Map.empty c1 = (Inr td, c')"
      by (simp add: readTables_def eff_bind_def)
    from fetchTables_forEach_primitive[OF assms(1) primitive_rows_empty this] show ?thesis .
  qed
qed

lemma resultTables_primitive:
  assumes "\<forall>r \<in> set rs. wf_result r"
  shows "primitive_rows (resultTables P rs)"
proof -
  define f where "f = (\<lambda>table (tableData::TableData).
     set_property tableData (join '', '' (qr_columns table)) (resultRows P table))"
  have step: "f r m = set_property m (join '', '' (qr_columns r)) (resultRows P r)" for r m
    by (simp add: f_def)
  have "primitive_rows m0 \<Longrightarrow> \<forall>r \<in> set rs. wf_result r \<Longrightarrow> primitive_rows (fold f rs m0)" for m0
  proof (induction rs arbitrary: m0)
    case Nil
    then show ?case by simp
  next
    case (Cons r rs)
    have "\<forall>row \<in> set (resultRows P r). \<forall>v \<in> ran row. is_primitive v"
      unfolding resultRows_def
      by (rule wf_rows_primitive) (use Cons.prems in \<open>simp_all add: inline_convert_primitive\<close>)
    from primitive_rows_upd[OF Cons.prems(1) this]
    have "primitive_rows (f r m0)" by (simp add: step)
    from Cons.IH[OF this] Cons.prems(2) show ?case by simp
  qed
  from this[OF primitive_rows_empty assms] show ?thesis by (simp add: resultTables_def f_def)
qed


lemma executeQuery_cases:
  obtains
    (no_db) "db s = None" "snd (executeQuery P s) = s"
  | (dml_throw) c e d' where "db s = Some c" "isDMLQuery (editorContent s)"
      "db_run P (handle c) (editorContent s) = (Inl e, d')"
      "snd (executeQuery P s) =
         (refetch P (s\<lparr>queryMessage := None,
            db := Some \<lparr>handle = d', trace = trace c @ [CallRun (editorContent s)]\<rparr>,
            queryError := Some (''SQL Error: '' @ errorMessage P e)\<rparr>))\<lparr>leftWidth := leftWidth s\<rparr>"
  | (dml_ok) c d' where "db s = Some c" "isDMLQuery (editorContent s)"
      "db_run P (handle c) (editorContent s) = (Inr (), d')"
      "snd (executeQuery P s) =
         (refetch P (s\<lparr>queryError := None,
            db := Some \<lparr>handle = d', trace = trace c @ [CallRun (editorContent s)]\<rparr>,
            queryResults := Some Map.empty,
            queryMessage := Some (''Query executed successfully. Rows affected: '' @
                                  numberToString P (db_getRowsModified P d'))\<rparr>))\<lparr>leftWidth := leftWidth s\<rparr>"
  | (select_throw) c e d' where "db s = Some c" "\<not> isDMLQuery (editorContent s)"
      "db_exec P (handle c) (editorContent s) = (Inl e, d')"
      "snd (executeQuery P s) =
         refetch P (s\<lparr>queryMessage := None,
            db := Some \<lparr>handle = d', trace = trace c @ [CallExec (editorContent s)]\<rparr>,
            queryError := Some (''SQL Error: '' @ errorMessage P e),
            queryResults := Some Map.empty\<rparr>)"
  | (select_empty) c d' where "db s = Some c" "\<not> isDMLQuery (editorContent s)"
      "db_exec P (handle c) (editorContent s) = (Inr [], d')"
      "snd (executeQuery P s) =
         (refetch P (s\<lparr>queryError := None,
            db := Some \<lparr>handle = d', trace = trace c @ [CallExec (editorContent s)]\<rparr>,
            queryResults := Some Map.empty,
            queryMessage := Some ''Query executed successfully. No rows returned.''\<rparr>))\<lparr>leftWidth := leftWidth s\<rparr>"
  | (select_rows) c rs d' where "db s = Some c" "\<not> isDMLQuery (editorContent s)"
      "db_exec P (handle c) (editorContent s) = (Inr rs, d')" "rs \<noteq> []"
      "snd (executeQuery P s) =
         (refetch P (s\<lparr>queryError := None, queryMessage := None,
            db := Some \<lparr>handle = d', trace = trace c @ [CallExec (editorContent s)]\<rparr>,
            queryResults := Some (resultTables P rs)\<rparr>))\<lparr>leftWidth := leftWidth s\<rparr>"
proof (cases "db s")
  case None
  then show ?thesis using no_db by (simp add: executeQuery_None)
next
  case (Some c)
  let ?s0 = "s\<lparr>queryError := None, queryMessage := None\<rparr>"
  have c0: "db ?s0 = Some c" using Some by simp
  show ?thesis
  proof (cases "isDMLQuery (editorContent s)")
    case True
    obtain r d' where r: "db_run P (handle c) (editorContent s) = (r, d')"
      by (cases "db_run P (handle c) (editorContent s)")
    show ?thesis
    proof (cases r)
      case (Inl e)
      show ?thesis
        by (rule dml_throw[OF Some True r[unfolded Inl]])
           (simp add: executeQuery_dml_path[OF Some True] executeQuery_dml_throw[OF c0 r[unfolded Inl]])
    next
      case (Inr u)
      have r': "db_run P (handle c) (editorContent s) = (Inr (), d')" using r Inr by simp
      show ?thesis
        by (rule dml_ok[OF Some True r'])
           (simp add: executeQuery_dml_path[OF Some True] executeQuery_dml_ok[OF c0 r'])
    qed
  next
    case False
    obtain r d' where r: "db_exec P (handle c) (editorContent s) = (r, d')"
      by (cases "db_exec P (handle c) (editorContent s)")
    show ?thesis
    proof (cases r)
      case (Inl e)
      show ?thesis
        by (rule select_throw[OF Some False r[unfolded Inl]])
           (simp add: executeQuery_select_path[OF Some False] executeQuery_select_throw[OF c0 r[unfolded Inl]])
    next
      case (Inr rs)
      show ?thesis
      proof (cases "rs = []")
        case True
        have r': "db_exec P (handle c) (editorContent s) = (Inr [], d')" using r Inr True by simp
        show ?thesis
          by (rule select_empty[OF Some False r'])
             (simp add: executeQuery_select_path[OF Some False] executeQuery_select_ok[OF c0 r'])
      next
        case nonempty: False
        show ?thesis
          by (rule select_rows[OF Some False r[unfolded Inr] nonempty])
             (simp add: executeQuery_select_path[OF Some False] executeQuery_select_ok[OF c0 r[unfolded Inr]] nonempty)
      qed
    qed
  qed
qed


lemma fetchTables_primitive:
  assumes "engine_typed P" "primitive_rows (tables s)"
  shows "primitive_rows (tables (snd (fetchTables P s)))"
proof (cases "db s")
  case None
  with assms show ?thesis by (simp add: fetchTables_None)
next
  case (Some c)
  obtain r c' where r: "readTables P c = (r, c')" by (cases "readTables P c")
  show ?thesis
  proof (cases r)
    case (Inl e)
    with assms r show ?thesis by (simp add: fetchTables_eq[OF Some])
  next
    case (Inr td)
    with readTables_primitive[OF assms(1) r[unfolded Inr]] r show ?thesis
      by (simp add: fetchTables_eq[OF Some])
  qed
qed

lemma refetch_tables: "tables (refetch P s) = tables (snd (fetchTables P s))"
  by (simp add: refetch_eq fetchTableSchemas_frame)

lemma refetch_primitive:
  "engine_typed P \<Longrightarrow> primitive_rows (tables s) \<Longrightarrow> primitive_rows (tables (refetch P s))"
  by (simp add: refetch_tables fetchTables_primitive)

lemma executeQuery_primitive:
  assumes t: "engine_typed P"
    and p: "primitive_rows (tables s)" and q: "primitive_results (queryResults s)"
  shows "primitive_rows (tables (snd (executeQuery P s)))"
    and "primitive_results (queryResults (snd (executeQuery P s)))"
proof -
  show "primitive_rows (tables (snd (executeQuery P s)))"
    by (cases rule: executeQuery_cases[of s P]) (simp_all add: p refetch_primitive[OF t])
  show "primitive_results (queryResults (snd (executeQuery P s)))"
  proof (cases rule: executeQuery_cases[of s P])
    case (select_rows c rs d')
    from t select_rows(3) have "\<forall>r \<in> set rs. wf_result r" by (auto simp: engine_typed_def)
    from resultTables_primitive[OF this] show ?thesis
      by (simp add: select_rows(5) refetch_frame primitive_results_def)
  qed (use q in \<open>simp_all add: refetch_frame primitive_results_def primitive_rows_empty\<close>)
qed


lemma downloadDatabase_cases:
  obtains (alerted) m where "snd (downloadDatabase P s) = s\<lparr>alerts := alerts s @ [m]\<rparr>"
  | (failed) c' m where "snd (downloadDatabase P s) = s\<lparr>db := Some c', alerts := alerts s @ [m]\<rparr>"
  | (ok) c' f m where
      "snd (downloadDatabase P s) = s\<lparr>db := Some c', downloads := downloads s @ [f], alerts := alerts s @ [m]\<rparr>"
proof (cases "db s")
  case None
  then show ?thesis using alerted by (simp add: downloadDatabase_None)
next
  case (Some c)
  obtain r d' where r: "db_export P (handle c) = (r, d')" by (cases "db_export P (handle c)")
  show ?thesis
  proof (cases r)
    case (Inl e)
    show ?thesis
      by (rule failed) (simp add: downloadDatabase_throw[OF Some r[unfolded Inl]])
  next
    case (Inr data)
    show ?thesis
      by (rule ok) (simp add: downloadDatabase_ok[OF Some r[unfolded Inr]])
  qed
qed

lemma downloadDatabase_frame:
  "tables (snd (downloadDatabase P s)) = tables s"
  "tableSchemas (snd (downloadDatabase P s)) = tableSchemas s"
  "queryResults (snd (downloadDatabase P s)) = queryResults s"
  "leftWidth (snd (downloadDatabase P s)) = leftWidth s"
  "topHeightLeft (snd (downloadDatabase P s)) = topHeightLeft s"
  "topHeightRight (snd (downloadDatabase P s)) = topHeightRight s"
  "listeners (snd (downloadDatabase P s)) = listeners s"
  by (cases rule: downloadDatabase_cases[of P s]; simp)+

lemma clearDatabase_ok:
  "clearDatabase P (Inr newDb) s =
     (Inr (), s\<lparr>db := Some \<lparr>handle = newDb, trace = []\<rparr>, selectedFile := None,
        tables := Map.empty, tableSchemas := [], queryResults := None, queryError := None,
        editorContent := ''-- Write your SQL here'',
        queryMessage := Some ''Database cleared successfully. Start with a fresh database.''\<rparr>)"
  by (simp add: clearDatabase_def try_catch_def eff_bind_def eff_seq_def eff_upd_def)

lemma clearDatabase_failed:
  "clearDatabase P (Inl e) s =
     (Inr (), s\<lparr>alerts := alerts s @ [''Error clearing database: '' @ errorMessage P e]\<rparr>)"
  by (simp add: clearDatabase_def try_catch_def eff_bind_def alert_def eff_upd_def)

lemma db_effect_eq: "snd (db_effect P s) = refetch P s"
  by (cases "db s") (simp_all add: db_effect_def refetch_def fetchTables_None fetchTableSchemas_None
      eff_seq_def eff_bind_def)

lemma onMouseMove_frame:
  "tables (onMouseMove l ev s) = tables s"
  "tableSchemas (onMouseMove l ev s) = tableSchemas s"
  "queryResults (onMouseMove l ev s) = queryResults s"
  "listeners (onMouseMove l ev s) = listeners s"
  "db (onMouseMove l ev s) = db s"
  by (cases l; simp add: setHeightOf_def split: pane.splits)+

lemma mouse_moves_frame:
  "tables (fold (\<lambda>l. onMouseMove l ev) ls s) = tables s"
  "queryResults (fold (\<lambda>l. onMouseMove l ev) ls s) = queryResults s"
  by (induction ls arbitrary: s; simp add: onMouseMove_frame)+

lemma app_step_primitive:
  assumes t: "engine_typed P"
    and p: "primitive_rows (tables s)" and q: "primitive_results (queryResults s)"
  shows "primitive_rows (tables (app_step P ev s)) \<and> primitive_results (queryResults (app_step P ev s))"
proof (cases ev)
  case RunSql
  then show ?thesis using executeQuery_primitive[OF t p q] by simp
next
  case (DbLoaded d)
  then show ?thesis using p q
    by (simp add: db_effect_eq refetch_primitive[OF t] refetch_frame)
next
  case (ClearDb created)
  then show ?thesis using p q
    by (cases created)
       (simp_all add: db_effect_eq refetch_primitive[OF t] refetch_frame clearDatabase_ok
          clearDatabase_failed primitive_rows_empty primitive_results_def)
qed (use p q in \<open>simp_all add: downloadDatabase_frame mouse_moves_frame handleHorizontalResize_def
       handleVerticalResize_def\<close>)

lemma app_run_primitive:
  assumes t: "engine_typed P"
  shows "primitive_rows (tables s) \<Longrightarrow> primitive_results (queryResults s) \<Longrightarrow>
    primitive_rows (tables (app_run P evs s)) \<and> primitive_results (queryResults (app_run P evs s))"
  unfolding app_run_def
proof (induction evs arbitrary: s)
  case Nil
  then show ?case by simp
next
  case (Cons ev evs)
  from app_step_primitive[OF t Cons.prems] Cons.IH[of "app_step P ev s"] show ?case by simp
qed

text \<open>
  Claim C3. Provided the engine keeps to the declared type of \<open>db.exec\<close>, every cell that
  \<open>fetchTables\<close> passes to \<open>setTables\<close> and every cell that \<open>executeQuery\<close> passes to
  \<open>setQueryResults\<close> is a string, a number or \<open>null\<close>; a \<open>Uint8Array\<close> is stored as the
  string \<open>TextDecoder\<close> gives for it. Hence, whatever the user does, the tables and the
  results handed to the display components hold primitive cells only.
\<close>

theorem stored_cells_are_primitive:
  assumes "engine_typed P"
  shows "(\<forall>c td c'. readTables P c = (Inr td, c') \<longrightarrow> primitive_rows td) \<and>
    (\<forall>d q rs d'. db_exec P d q = (Inr rs, d') \<longrightarrow> primitive_rows (resultTables P rs)) \<and>
    convertSqlValue P (JUint8Array bs) = JString (textDecode P bs) \<and>
    (\<forall>v. v \<noteq> JUndefined \<longrightarrow> is_primitive (convertSqlValue P v)) \<and>
    primitive_rows (tables (app_run P evs initial_world)) \<and>
    primitive_results (queryResults (app_run P evs initial_world)) \<and>
    primitive_rows (AvailableTables_tables (render (app_run P evs initial_world))) \<and>
    (\<forall>r. results_pane (render (app_run P evs initial_world)) = QueryOutputTable r \<longrightarrow>
         primitive_results r)"
proof -
  have init: "primitive_rows (tables (initial_world :: 'a world))"
    "primitive_results (queryResults (initial_world :: 'a world))"
    by (simp_all add: initial_world_def primitive_rows_empty primitive_results_def)
  note run = app_run_primitive[OF assms init, of evs]
  have 1: "\<forall>c td c'. readTables P c = (Inr td, c') \<longrightarrow> primitive_rows td"
    using readTables_primitive[OF assms] by blast
  have 2: "\<forall>d q rs d'. db_exec P d q = (Inr rs, d') \<longrightarrow> primitive_rows (resultTables P rs)"
  proof (intro allI impI)
    fix d q rs d'
    assume "db_exec P d q = (Inr rs, d')"
    with assms have "\<forall>r \<in> set rs. wf_result r" by (auto simp: engine_typed_def)
    then show "primitive_rows (resultTables P rs)" by (rule resultTables_primitive)
  qed
  have 3: "convertSqlValue P (JUint8Array bs) = JString (textDecode P bs)"
    by (simp add: convertSqlValue_def)
  have 4: "\<forall>v. v \<noteq> JUndefined \<longrightarrow> is_primitive (convertSqlValue P v)"
    by (simp add: convertSqlValue_primitive)
  have 5: "primitive_rows (AvailableTables_tables (render (app_run P evs initial_world)))"
    using run by (simp add: render_def)
  have 6: "\<forall>r. results_pane (render (app_run P evs initial_world)) = QueryOutputTable r \<longrightarrow>
         primitive_results r"
    using run by (auto simp: render_def split: if_splits)
  from 1 2 3 4 5 6 run show ?thesis by blast
qed

lemma demo_engine_typed: "engine_typed demo_platform"
  unfolding engine_typed_def
proof (intro allI impI ballI)
  fix d q rs d' r
  assume "db_exec demo_platform d q = (Inr rs, d')" "r \<in> set rs"
  then show "wf_result r"
    by (auto simp: demo_platform_def demo_exec_def wf_result_def split: if_splits)
qed

lemma demo_readTables:
  \<open>readTables demo_platform c =
     (Inr [''t'' \<mapsto> [[''id'' \<mapsto> JNumber (Fin 1), ''data'' \<mapsto> JString ''hi'']]],
      \<lparr>handle = handle c, trace = trace c @ [CallExec listTablesSql, CallExec ''SELECT * FROM "t";'']\<rparr>)\<close>
  by (simp add: readTables_def eff_bind_def conn_exec_def demo_platform_def demo_exec_def
      tableNamesOf_def js_index_def fetchTables_each_def selectAllSql_def toStr_def rowObject_def
      Object_fromEntries_def convertSqlValue_def eff_ret_def listTablesSql_def set_property_def)


lemma refetch_db_Some: "db s = Some c \<Longrightarrow> \<exists>c'. db (refetch P s) = Some c'"
proof -
  assume c: "db s = Some c"
  have 1: "\<exists>c1. db (snd (fetchTables P s)) = Some c1"
    by (cases rule: fetchTables_cases[of P s]) (simp_all add: c)
  then obtain c1 where c1: "db (snd (fetchTables P s)) = Some c1" ..
  show ?thesis
    by (cases rule: fetchTableSchemas_cases[of P "snd (fetchTables P s)"])
       (simp_all add: refetch_eq c1)
qed

text \<open>
  The scripted engine keeps to the declared type. Loading its database and selecting the
  binary column stores the decoded text in both places.
\<close>

lemma demo_select_data: "\<not> isDMLQuery ''SELECT data FROM t''"
  by code_simp

theorem stored_cells_are_primitive_witness:
  "engine_typed demo_platform \<and>
   tables (app_run demo_platform [DbLoaded 0] initial_world) ''t'' =
     Some [[''id'' \<mapsto> JNumber (Fin 1), ''data'' \<mapsto> JString ''hi'']] \<and>
   primitive_rows (tables (app_run demo_platform [DbLoaded 0] initial_world)) \<and>
   primitive_results (queryResults (app_run demo_platform
      [DbLoaded 0, EditorChange (Some ''SELECT data FROM t''), RunSql] initial_world)) \<and>
   queryResults (app_run demo_platform
      [DbLoaded 0, EditorChange (Some ''SELECT data FROM t''), RunSql] initial_world) =
     Some [''data'' \<mapsto> [[''data'' \<mapsto> JString ''hi'']]]"
proof -
  let ?s0 = "(initial_world :: nat world)\<lparr>db := Some \<lparr>handle = 0, trace = []\<rparr>\<rparr>"
  have c0: "db ?s0 = Some \<lparr>handle = 0, trace = []\<rparr>" by simp
  have 1: "tables (app_run demo_platform [DbLoaded 0] initial_world) ''t'' =
     Some [[''id'' \<mapsto> JNumber (Fin 1), ''data'' \<mapsto> JString ''hi'']]"
    by (simp add: app_run_def db_effect_eq refetch_tables fetchTables_eq[OF c0] demo_readTables)
  obtain c1 where c1: "db (refetch demo_platform ?s0) = Some c1"
    using refetch_db_Some[OF c0] by blast
  let ?s1 = "(refetch demo_platform ?s0)\<lparr>editorContent := ''SELECT data FROM t''\<rparr>"
  have run: "app_run demo_platform [DbLoaded 0, EditorChange (Some ''SELECT data FROM t''), RunSql]
      initial_world = snd (executeQuery demo_platform ?s1)"
    by (simp add: app_run_def db_effect_eq)
  have x: "db_exec demo_platform (handle c1) (editorContent ?s1) =
      (Inr [\<lparr>qr_columns = [''data''], qr_values = [[JUint8Array [104, 105]]]\<rparr>], handle c1)"
    by (simp add: demo_platform_def demo_exec_def listTablesSql_def)
  have "queryResults (snd (executeQuery demo_platform ?s1)) =
      Some (resultTables demo_platform [\<lparr>qr_columns = [''data''], qr_values = [[JUint8Array [104, 105]]]\<rparr>])"
    using executeQuery_select_results(1)[of ?s1 c1 demo_platform, OF _ _ x] c1 demo_select_data
    by simp
  then have 2: "queryResults (app_run demo_platform
      [DbLoaded 0, EditorChange (Some ''SELECT data FROM t''), RunSql] initial_world) =
     Some [''data'' \<mapsto> [[''data'' \<mapsto> JString ''hi'']]]"
    unfolding run
    by (simp add: resultTables_def resultRows_def rowObject_def Object_fromEntries_def js_index_def
        demo_platform_def set_property_def)
  from stored_cells_are_primitive[OF demo_engine_typed, where evs="[DbLoaded 0]"]
    stored_cells_are_primitive[OF demo_engine_typed,
      where evs="[DbLoaded 0, EditorChange (Some ''SELECT data FROM t''), RunSql]"]
    demo_engine_typed 1 2
  show ?thesis by blast
qed

section \<open>The calls made on the engine\<close>














section \<open>Rows as records\<close>











section \<open>Tables and schemas after a statement\<close>

lemma refetch_tables_eq:
  assumes "db X = Some c1"
  shows "tables (refetch P X) =
    (case readTables P c1 of (Inr td, _) \<Rightarrow> td | (Inl _, _) \<Rightarrow> tables X)"
proof -
  obtain r c2 where r: "readTables P c1 = (r, c2)" by (cases "readTables P c1")
  show ?thesis
    by (cases r) (simp_all add: refetch_tables fetchTables_eq[OF assms] r)
qed

lemma refetch_schemas_eq:
  assumes "db X = Some c1"
  shows "tableSchemas (refetch P X) =
    (case readSchemas P (snd (readTables P c1)) of (Inr sch, _) \<Rightarrow> sch | (Inl _, _) \<Rightarrow> tableSchemas X)"
proof -
  obtain r c2 where r: "readTables P c1 = (r, c2)" by (cases "readTables P c1")
  have d: "db (snd (fetchTables P X)) = Some c2"
    by (cases r) (simp_all add: fetchTables_eq[OF assms] r)
  obtain r' c3 where r': "readSchemas P c2 = (r', c3)" by (cases "readSchemas P c2")
  show ?thesis
    by (cases r') (simp_all add: refetch_eq fetchTableSchemas_eq[OF d] r r' fetchTables_frame)
qed

lemma executeQuery_refetches:
  assumes c: "db s = Some c"
  shows "\<exists>X. db X = Some (after_statement P (editorContent s) c) \<and>
     tables X = tables s \<and> tableSchemas X = tableSchemas s \<and>
     tables (snd (executeQuery P s)) = tables (refetch P X) \<and>
     tableSchemas (snd (executeQuery P s)) = tableSchemas (refetch P X)"
proof (cases rule: executeQuery_cases[of s P])
  case no_db
  with c show ?thesis by simp
next
  case (dml_throw c0 e d')
  with c show ?thesis
    by (intro exI[of _ "s\<lparr>queryMessage := None,
            db := Some \<lparr>handle = d', trace = trace c @ [CallRun (editorContent s)]\<rparr>,
            queryError := Some (''SQL Error: '' @ errorMessage P e)\<rparr>"])
       (simp add: after_statement_def conn_run_def)
next
  case (dml_ok c0 d')
  with c show ?thesis
    by (intro exI[of _ "s\<lparr>queryError := None,
            db := Some \<lparr>handle = d', trace = trace c @ [CallRun (editorContent s)]\<rparr>,
            queryResults := Some Map.empty,
            queryMessage := Some (''Query executed successfully. Rows affected: '' @
                                  numberToString P (db_getRowsModified P d'))\<rparr>"])
       (simp add: after_statement_def conn_run_def)
next
  case (select_throw c0 e d')
  with c show ?thesis
    by (intro exI[of _ "s\<lparr>queryMessage := None,
            db := Some \<lparr>handle = d', trace = trace c @ [CallExec (editorContent s)]\<rparr>,
            queryError := Some (''SQL Error: '' @ errorMessage P e),
            queryResults := Some Map.empty\<rparr>"])
       (simp add: after_statement_def conn_exec_def)
next
  case (select_empty c0 d')
  with c show ?thesis
    by (intro exI[of _ "s\<lparr>queryError := None,
            db := Some \<lparr>handle = d', trace = trace c @ [CallExec (editorContent s)]\<rparr>,
            queryResults := Some Map.empty,
            queryMessage := Some ''Query executed successfully. No rows returned.''\<rparr>"])
       (simp add: after_statement_def conn_exec_def)
next
  case (select_rows c0 rs d')
  with c show ?thesis
    by (intro exI[of _ "s\<lparr>queryError := None, queryMessage := None,
            db := Some \<lparr>handle = d', trace = trace c @ [CallExec (editorContent s)]\<rparr>,
            queryResults := Some (resultTables P rs)\<rparr>"])
       (simp add: after_statement_def conn_exec_def)
qed

lemma executeQuery_tables_eq:
  assumes c: "db s = Some c"
  shows "tables (snd (executeQuery P s)) =
      (case readTables P (after_statement P (editorContent s) c) of
         (Inr td, _) \<Rightarrow> td | (Inl _, _) \<Rightarrow> tables s)"
    and "tableSchemas (snd (executeQuery P s)) =
      (case readSchemas P (snd (readTables P (after_statement P (editorContent s) c))) of
         (Inr sch, _) \<Rightarrow> sch | (Inl _, _) \<Rightarrow> tableSchemas s)"
proof -
  from executeQuery_refetches[OF c, of P] obtain X where
    X: "db X = Some (after_statement P (editorContent s) c)" "tables X = tables s"
      "tableSchemas X = tableSchemas s" "tables (snd (executeQuery P s)) = tables (refetch P X)"
      "tableSchemas (snd (executeQuery P s)) = tableSchemas (refetch P X)"
    by blast
  show "tables (snd (executeQuery P s)) =
      (case readTables P (after_statement P (editorContent s) c) of
         (Inr td, _) \<Rightarrow> td | (Inl _, _) \<Rightarrow> tables s)"
    unfolding X(4) refetch_tables_eq[OF X(1)] X(2) ..
  show "tableSchemas (snd (executeQuery P s)) =
      (case readSchemas P (snd (readTables P (after_statement P (editorContent s) c))) of
         (Inr sch, _) \<Rightarrow> sch | (Inl _, _) \<Rightarrow> tableSchemas s)"
    unfolding X(5) refetch_schemas_eq[OF X(1)] X(3) ..
qed

text \<open>
  Claim C2, as the code has it. After \<open>executeQuery\<close> on a loaded database, whether the
  statement returned or threw, \<open>fetchTables\<close> and \<open>fetchTableSchemas\<close> query the catalog
  of the database as the statement left it. If the queries of \<open>fetchTables\<close> all return,
  \<open>tables\<close> is what they returned; if those of \<open>fetchTableSchemas\<close> return,
  \<open>tableSchemas\<close> is what they returned; neither value depends on the previous \<open>tables\<close>
  or \<open>tableSchemas\<close>. If a query of \<open>fetchTables\<close> throws, \<open>tables\<close> keeps its previous
  value, and likewise \<open>tableSchemas\<close> when the table list cannot be read.
\<close>

theorem executeQuery_rebuilds_from_catalog:
  assumes "db s = Some c"
  shows
   "(\<forall>td c2. readTables P (after_statement P (editorContent s) c) = (Inr td, c2) \<longrightarrow>
       tables (snd (executeQuery P s)) = td \<and>
       (\<forall>s'. db s' = Some c \<longrightarrow> editorContent s' = editorContent s \<longrightarrow>
             tables (snd (executeQuery P s')) = td)) \<and>
    (\<forall>e c2. readTables P (after_statement P (editorContent s) c) = (Inl e, c2) \<longrightarrow>
       tables (snd (executeQuery P s)) = tables s) \<and>
    (\<forall>sch c3. readSchemas P (snd (readTables P (after_statement P (editorContent s) c))) = (Inr sch, c3) \<longrightarrow>
       tableSchemas (snd (executeQuery P s)) = sch \<and>
       (\<forall>s'. db s' = Some c \<longrightarrow> editorContent s' = editorContent s \<longrightarrow>
             tableSchemas (snd (executeQuery P s')) = sch)) \<and>
    (\<forall>e c3. readSchemas P (snd (readTables P (after_statement P (editorContent s) c))) = (Inl e, c3) \<longrightarrow>
       tableSchemas (snd (executeQuery P s)) = tableSchemas s)"
proof (intro conjI allI impI)
  fix td c2
  assume r: "readTables P (after_statement P (editorContent s) c) = (Inr td, c2)"
  show "tables (snd (executeQuery P s)) = td"
    by (simp add: executeQuery_tables_eq(1)[OF assms] r)
  fix s' :: "'a world"
  assume "db s' = Some c" "editorContent s' = editorContent s"
  then show "tables (snd (executeQuery P s')) = td"
    by (simp add: executeQuery_tables_eq(1)[of s' c] r)
next
  fix e c2
  assume "readTables P (after_statement P (editorContent s) c) = (Inl e, c2)"
  then show "tables (snd (executeQuery P s)) = tables s"
    by (simp add: executeQuery_tables_eq(1)[OF assms])
next
  fix sch c3
  assume r: "readSchemas P (snd (readTables P (after_statement P (editorContent s) c))) = (Inr sch, c3)"
  show "tableSchemas (snd (executeQuery P s)) = sch"
    by (simp add: executeQuery_tables_eq(2)[OF assms] r)
  fix s' :: "'a world"
  assume "db s' = Some c" "editorContent s' = editorContent s"
  then show "tableSchemas (snd (executeQuery P s')) = sch"
    by (simp add: executeQuery_tables_eq(2)[of s' c] r)
next
  fix e c3
  assume "readSchemas P (snd (readTables P (after_statement P (editorContent s) c))) = (Inl e, c3)"
  then show "tableSchemas (snd (executeQuery P s)) = tableSchemas s"
    by (simp add: executeQuery_tables_eq(2)[OF assms])
qed


text \<open>
  On the scripted engine a misspelt statement throws; the tables and schemas shown
  afterwards are those of the catalog, whatever was shown before.
\<close>

lemma demo_readSchemas:
  \<open>readSchemas demo_platform c =
     (Inr [\<lparr>ts_name = JString ''t'',
             ts_columns = [\<lparr>col_name = JString ''id'', col_type = JString ''INTEGER'', notNull = True,
                              defaultValue = JNull, primaryKey = True\<rparr>,
                           \<lparr>col_name = JString ''data'', col_type = JString ''BLOB'', notNull = False,
                              defaultValue = JNull, primaryKey = False\<rparr>],
             foreignKeys = []\<rparr>],
      \<lparr>handle = handle c,
        trace = trace c @ [CallExec listTablesSql, CallExec ''PRAGMA table_info("t");'',
                           CallExec ''PRAGMA foreign_key_list("t");'']\<rparr>)\<close>
  by (simp add: readSchemas_def eff_bind_def conn_exec_def demo_platform_def demo_exec_def
      tableNamesOf_def js_index_def fetchTableSchemas_each_def fetchTableSchemas_try_def try_catch_def
      tableInfoSql_def foreignKeyListSql_def toStr_def columnOf_def Boolean_def foreignKeysOf_def
      eff_ret_def listTablesSql_def)

theorem executeQuery_rebuilds_from_catalog_witness:
  "tables (snd (executeQuery demo_platform (demo_world ''SELEC''))) =
     [''t'' \<mapsto> [[''id'' \<mapsto> JNumber (Fin 1), ''data'' \<mapsto> JString ''hi'']]] \<and>
   tables (snd (executeQuery demo_platform
      ((demo_world ''SELEC'')\<lparr>tables := [''old'' \<mapsto> []], tableSchemas := []\<rparr>))) =
     [''t'' \<mapsto> [[''id'' \<mapsto> JNumber (Fin 1), ''data'' \<mapsto> JString ''hi'']]] \<and>
   tableSchemas (snd (executeQuery demo_platform (demo_world ''SELEC''))) =
     [\<lparr>ts_name = JString ''t'',
       ts_columns = [\<lparr>col_name = JString ''id'', col_type = JString ''INTEGER'', notNull = True,
                        defaultValue = JNull, primaryKey = True\<rparr>,
                     \<lparr>col_name = JString ''data'', col_type = JString ''BLOB'', notNull = False,
                        defaultValue = JNull, primaryKey = False\<rparr>],
       foreignKeys = []\<rparr>]"
proof -
  let ?s = "demo_world ''SELEC''"
  let ?s' = "(demo_world ''SELEC'')\<lparr>tables := [''old'' \<mapsto> []], tableSchemas := []\<rparr>"
  have d: "db ?s = Some demo_conn" "db ?s' = Some demo_conn" "editorContent ?s' = editorContent ?s"
    by (simp_all add: demo_world_def)
  note T = executeQuery_rebuilds_from_catalog[OF d(1), of demo_platform]
  from conjunct1[OF T, rule_format, OF demo_readTables]
  have 1: "tables (snd (executeQuery demo_platform ?s)) =
      [''t'' \<mapsto> [[''id'' \<mapsto> JNumber (Fin 1), ''data'' \<mapsto> JString ''hi'']]]"
    and 2: "tables (snd (executeQuery demo_platform ?s')) =
      [''t'' \<mapsto> [[''id'' \<mapsto> JNumber (Fin 1), ''data'' \<mapsto> JString ''hi'']]]"
    using d by blast+
  from conjunct1[OF conjunct2[OF conjunct2[OF T]], rule_format, OF demo_readSchemas]
  have 3: "tableSchemas (snd (executeQuery demo_platform ?s)) =
     [\<lparr>ts_name = JString ''t'',
       ts_columns = [\<lparr>col_name = JString ''id'', col_type = JString ''INTEGER'', notNull = True,
                        defaultValue = JNull, primaryKey = True\<rparr>,
                     \<lparr>col_name = JString ''data'', col_type = JString ''BLOB'', notNull = False,
                        defaultValue = JNull, primaryKey = False\<rparr>],
       foreignKeys = []\<rparr>]"
    by blast
  from 1 2 3 show ?thesis by blast
qed

text \<open>
  Claim C2 as stated fails. With a table named \<open>a"b\<close> in the database, the query that
  \<open>fetchTables\<close> builds for it throws, \<open>setTables\<close> is not reached, and the tables shown
  after \<open>executeQuery\<close> are the ones shown before it: two states that differ only in
  \<open>tables\<close> still differ in \<open>tables\<close> afterwards.
\<close>

lemma quoted_readTables_throws:
  \<open>fst (readTables quoted_platform c) = Inl (JsError ''unrecognized token: "";"'')\<close>
  by (simp add: readTables_def eff_bind_def conn_exec_def quoted_platform_def demo_platform_def
      quoted_exec_def tableNamesOf_def js_index_def fetchTables_each_def selectAllSql_def toStr_def
      listTablesSql_def)

theorem executeQuery_rebuilds_tables_counterexample:
  "db (quoted_world [''old'' \<mapsto> []]) = db (quoted_world Map.empty) \<and>
   editorContent (quoted_world [''old'' \<mapsto> []]) = editorContent (quoted_world Map.empty) \<and>
   tables (snd (executeQuery quoted_platform (quoted_world [''old'' \<mapsto> []]))) ''old'' = Some [] \<and>
   tables (snd (executeQuery quoted_platform (quoted_world Map.empty))) ''old'' = None"
proof -
  have d: "db (quoted_world p) = Some demo_conn" "tables (quoted_world p) = p"
    "editorContent (quoted_world p) = ''SELECT 1''" for p
    by (simp_all add: quoted_world_def)
  have t: "tables (snd (executeQuery quoted_platform (quoted_world p))) = p" for p
  proof -
    obtain r c2 where r: "readTables quoted_platform
        (after_statement quoted_platform (editorContent (quoted_world p)) demo_conn) = (r, c2)"
      by (cases "readTables quoted_platform
        (after_statement quoted_platform (editorContent (quoted_world p)) demo_conn)")
    with quoted_readTables_throws[of "after_statement quoted_platform (editorContent (quoted_world p)) demo_conn"]
    have "\<exists>e. r = Inl e" by simp
    then obtain e where "r = Inl e" ..
    with r show ?thesis by (simp add: executeQuery_tables_eq(1)[OF d(1)] d(2))
  qed
  show ?thesis by (simp add: t d)
qed

section \<open>Schema records\<close>









section \<open>The layout fractions\<close>



lemma newFraction_zero_window: "newFraction start (js_div 0 0) = NaN"
  by (cases start) (simp_all add: newFraction_def js_div_def minFraction_def maxFraction_def)










section \<open>The matcher and the meaning of patterns\<close>






















end
